theory Spec2Isabelle
  imports Main
begin

section \<open>Go strings\<close>

text \<open>
  A Go string is a sequence of bytes, so it is a \<open>char list\<close> here. \<open>Contains\<close>,
  \<open>Split\<close> and \<open>Join\<close> of package \<open>strings\<close> work on bytes, so they are written
  out below and are exact for every string.
\<close>

fun strings_HasPrefix :: "string \<Rightarrow> string \<Rightarrow> bool" where
  "strings_HasPrefix s [] = True"
| "strings_HasPrefix [] (p # ps) = False"
| "strings_HasPrefix (c # cs) (p # ps) = (c = p \<and> strings_HasPrefix cs ps)"

fun strings_Contains :: "string \<Rightarrow> string \<Rightarrow> bool" where
  "strings_Contains [] substr = (substr = [])"
| "strings_Contains (c # cs) substr =
     (strings_HasPrefix (c # cs) substr \<or> strings_Contains cs substr)"

text \<open>
  \<open>strings.Split(s, sep)\<close> for a separator of one byte, the only way the program calls
  it: the pieces between the separators, empty pieces kept, so the result always has at
  least one element.
\<close>

fun strings_Split :: "string \<Rightarrow> char \<Rightarrow> string list" where
  "strings_Split [] sep = [[]]"
| "strings_Split (c # cs) sep =
     (if c = sep then [] # strings_Split cs sep
      else (case strings_Split cs sep of
              [] \<Rightarrow> [[c]]
            | p # ps \<Rightarrow> (c # p) # ps))"

fun strings_Join :: "string list \<Rightarrow> string \<Rightarrow> string" where
  "strings_Join [] sep = []"
| "strings_Join [p] sep = p"
| "strings_Join (p # q # ps) sep = p @ sep @ strings_Join (q # ps) sep"

definition byte :: "char \<Rightarrow> nat" where
  "byte c = of_char c"

text \<open>
  The case functions of package \<open>strings\<close> (\<open>Title\<close>, \<open>ToUpper\<close>, \<open>ToLower\<close>,
  \<open>EqualFold\<close>) decode the string into runes and consult the Unicode tables of the Go
  standard library, which are not part of the repository. They are a parameter of the
  model: a record of four functions (they are pure and never fail), and every
  definition that calls one of them takes the record. What is proved for every such
  record holds for Go's.
\<close>

record strings_package =
  strings_Title :: "string \<Rightarrow> string"
  strings_ToUpper :: "string \<Rightarrow> string"
  strings_ToLower :: "string \<Rightarrow> string"
  strings_EqualFold :: "string \<Rightarrow> string \<Rightarrow> bool"

text \<open>
  The conversion \<open>string(b)\<close> of a byte: the byte is taken as a rune and encoded in
  UTF-8, so a byte below \<open>0x80\<close> gives itself and a byte from \<open>0x80\<close> on gives two
  bytes.
\<close>

definition string_of_byte :: "char \<Rightarrow> string" where
  "string_of_byte b =
     (if byte b < 128 then [b]
      else [char_of (192 + byte b div 64), char_of (128 + byte b mod 64)])"

text \<open>
  Indexing and slicing a Go string panic out of range, so both have an outcome.
  \<open>string_index0 s\<close> is \<open>s[0]\<close> and \<open>string_slice1 s\<close> is \<open>s[1:]\<close>.
\<close>

datatype 'a outcome = Panics | Returns 'a

definition string_index0 :: "string \<Rightarrow> char outcome" where
  "string_index0 s = (if 0 < length s then Returns (s ! 0) else Panics)"

definition string_slice1 :: "string \<Rightarrow> string outcome" where
  "string_slice1 s = (if 1 \<le> length s then Returns (drop 1 s) else Panics)"

subsection \<open>The case functions on ASCII strings\<close>

text \<open>
  On a string whose bytes are all below \<open>0x80\<close> the case functions of Go never reach
  the Unicode tables. What they do there is written out in this subsection, from the
  Go library: \<open>ToUpper\<close> and \<open>ToLower\<close> shift the letters by the distance between
  \<open>'a'\<close> and \<open>'A'\<close>; \<open>Title\<close> maps over the string and remembers the previous
  character, and a character that follows a separator (or starts the string) is put in
  upper case, a separator being any character that is not a letter, a digit or an
  underscore; \<open>EqualFold\<close> accepts equal bytes, or an upper-case letter on one side and
  the same letter in lower case on the other, and wants equal lengths. These
  definitions say nothing about strings with a byte from \<open>0x80\<close> on, and no theorem
  uses them there.
\<close>

definition ascii :: "string \<Rightarrow> bool" where
  "ascii s = list_all (\<lambda>c. byte c < 128) s"

definition ascii_upper :: "char \<Rightarrow> char" where
  "ascii_upper c =
     (if byte CHR ''a'' \<le> byte c \<and> byte c \<le> byte CHR ''z''
      then char_of (byte c - (byte CHR ''a'' - byte CHR ''A''))
      else c)"

definition ascii_lower :: "char \<Rightarrow> char" where
  "ascii_lower c =
     (if byte CHR ''A'' \<le> byte c \<and> byte c \<le> byte CHR ''Z''
      then char_of (byte c + (byte CHR ''a'' - byte CHR ''A''))
      else c)"

definition ascii_ToUpper :: "string \<Rightarrow> string" where
  "ascii_ToUpper s = map ascii_upper s"

definition ascii_ToLower :: "string \<Rightarrow> string" where
  "ascii_ToLower s = map ascii_lower s"

definition ascii_isSeparator :: "char \<Rightarrow> bool" where
  "ascii_isSeparator r =
     (\<not> ((byte CHR ''0'' \<le> byte r \<and> byte r \<le> byte CHR ''9'')
         \<or> (byte CHR ''a'' \<le> byte r \<and> byte r \<le> byte CHR ''z'')
         \<or> (byte CHR ''A'' \<le> byte r \<and> byte r \<le> byte CHR ''Z'')
         \<or> r = CHR ''_''))"

fun ascii_Title_from :: "char \<Rightarrow> string \<Rightarrow> string" where
  "ascii_Title_from prev [] = []"
| "ascii_Title_from prev (r # rs) =
     (if ascii_isSeparator prev then ascii_upper r else r) # ascii_Title_from r rs"

definition ascii_Title :: "string \<Rightarrow> string" where
  "ascii_Title s = ascii_Title_from CHR '' '' s"

fun ascii_EqualFold :: "string \<Rightarrow> string \<Rightarrow> bool" where
  "ascii_EqualFold [] [] = True"
| "ascii_EqualFold [] (tr # t) = False"
| "ascii_EqualFold (sr # s) [] = False"
| "ascii_EqualFold (sr # s) (tr # t) =
     (if tr = sr then ascii_EqualFold s t
      else (let lo = min (byte sr) (byte tr); hi = max (byte sr) (byte tr)
            in if byte CHR ''A'' \<le> lo \<and> lo \<le> byte CHR ''Z''
                  \<and> hi = lo + (byte CHR ''a'' - byte CHR ''A'')
               then ascii_EqualFold s t
               else False))"

text \<open>
  A package is exact on ASCII when its four functions do on ASCII strings what is
  written above. Go's package is.
\<close>

definition ascii_exact :: "strings_package \<Rightarrow> bool" where
  "ascii_exact L =
     (\<forall>s. ascii s \<longrightarrow>
        strings_Title L s = ascii_Title s
        \<and> strings_ToUpper L s = ascii_ToUpper s
        \<and> strings_ToLower L s = ascii_ToLower s
        \<and> (\<forall>t. ascii t \<longrightarrow> strings_EqualFold L s t = ascii_EqualFold s t))"

text \<open>
  The package on which the theorems are run: the ASCII functions themselves. It is
  Go's package on ASCII strings, which are the only strings it is given below.
\<close>

definition ascii_package :: strings_package where
  "ascii_package =
     \<lparr>strings_Title = ascii_Title,
      strings_ToUpper = ascii_ToUpper,
      strings_ToLower = ascii_ToLower,
      strings_EqualFold = ascii_EqualFold\<rparr>"

section \<open>Data model\<close>

record GroupVersionResource =
  Group :: string
  Version :: string
  Resource :: string

record GroupKind =
  gk_Group :: string
  gk_Kind :: string

record GroupVersion =
  gv_Group :: string
  gv_Version :: string

record RESTMapping =
  mapping_Resource :: GroupVersionResource
  mapping_Kind :: GroupKind

record APIResource =
  Name :: string
  Kind :: string
  ShortNames :: "string list"
  Namespaced :: bool

text \<open>
  The snapshot is a Go slice of pointers to lists: an element may be nil, which is
  \<open>None\<close> here.
\<close>

record APIResourceList =
  GroupVersion :: string
  APIResources :: "APIResource list"

text \<open>
  The structured form of the errors the program builds with \<open>fmt.Errorf\<close>: one
  constructor for each format string, with the arguments of the format.
  \<^item> \<open>Provider e\<close>: an error value that a collaborator returned;
  \<^item> \<open>ErrEmptyName\<close>: "resource name cannot be empty";
  \<^item> \<open>ErrFindResource n e\<close>: "failed to find resource %q: %w" of \<open>n\<close> and \<open>e\<close>;
  \<^item> \<open>ErrNotFound n\<close>: "failed to find resource %q: resource not found in any API group";
  \<^item> \<open>ErrList e\<close>: "failed to list resources: %w" of \<open>e\<close>.
\<close>

datatype 'e error =
    Provider 'e
  | ErrEmptyName
  | ErrFindResource string "'e error"
  | ErrNotFound string
  | ErrList "'e error"

section \<open>Collaborators\<close>

text \<open>
  \<open>KubeGet\<close> holds a REST mapper, a discovery client and a dynamic client. They are
  interfaces that talk to a cluster and may cache, so each method takes the state \<open>'w\<close>
  of the world and returns the new one with its result; a Go result pair
  \<open>(value, err)\<close> is a sum, since the program never reads the value when \<open>err\<close> is
  not nil. The listing method stands for
  \<open>dynamicClient.Resource(gvr).List\<close> (restriction \<open>None\<close>) and
  \<open>dynamicClient.Resource(gvr).Namespace(ns).List\<close> (restriction \<open>Some ns\<close>); the
  collection it returns is a pointer, \<open>None\<close> when nil. The context and the empty
  list options that the program passes to \<open>List\<close> are fixed and left out. The three
  collaborators are taken to be present (a \<open>KubeGet\<close> built by \<open>NewKubeGet\<close>), and
  the mappings that \<open>RESTMappings\<close> returns to be non-nil pointers, as the REST mapper
  of client-go gives them.
\<close>

record ('e, 'i, 'w) KubeGet =
  restMapper_ResourceFor ::
    "GroupVersionResource \<Rightarrow> 'w \<Rightarrow> ('e + GroupVersionResource) \<times> 'w"
  restMapper_RESTMappings ::
    "GroupKind \<Rightarrow> 'w \<Rightarrow> ('e + RESTMapping list) \<times> 'w"
  discoveryClient_ServerPreferredResources ::
    "'w \<Rightarrow> ('e + APIResourceList option list) \<times> 'w"
  dynamicClient_List ::
    "GroupVersionResource \<Rightarrow> string option \<Rightarrow> 'w \<Rightarrow> ('e + 'i option) \<times> 'w"

text \<open>
  Every call of a collaborator is recorded, with its arguments and its result, in a
  log that is threaded along with the world.
\<close>

datatype ('e, 'i) call =
    ResourceFor_call GroupVersionResource "'e + GroupVersionResource"
  | RESTMappings_call GroupKind "'e + RESTMapping list"
  | ServerPreferredResources_call "'e + APIResourceList option list"
  | List_call GroupVersionResource "string option" "'e + 'i option"

type_synonym ('e, 'i, 'w) state = "'w \<times> ('e, 'i) call list"

definition call_ResourceFor ::
  "('e, 'i, 'w) KubeGet \<Rightarrow> GroupVersionResource \<Rightarrow> ('e, 'i, 'w) state
     \<Rightarrow> ('e + GroupVersionResource) \<times> ('e, 'i, 'w) state" where
  "call_ResourceFor k g st =
     (let (r, w') = restMapper_ResourceFor k g (fst st)
      in (r, (w', snd st @ [ResourceFor_call g r])))"

definition call_RESTMappings ::
  "('e, 'i, 'w) KubeGet \<Rightarrow> GroupKind \<Rightarrow> ('e, 'i, 'w) state
     \<Rightarrow> ('e + RESTMapping list) \<times> ('e, 'i, 'w) state" where
  "call_RESTMappings k gk st =
     (let (r, w') = restMapper_RESTMappings k gk (fst st)
      in (r, (w', snd st @ [RESTMappings_call gk r])))"

definition call_ServerPreferredResources ::
  "('e, 'i, 'w) KubeGet \<Rightarrow> ('e, 'i, 'w) state
     \<Rightarrow> ('e + APIResourceList option list) \<times> ('e, 'i, 'w) state" where
  "call_ServerPreferredResources k st =
     (let (r, w') = discoveryClient_ServerPreferredResources k (fst st)
      in (r, (w', snd st @ [ServerPreferredResources_call r])))"

definition call_List ::
  "('e, 'i, 'w) KubeGet \<Rightarrow> GroupVersionResource \<Rightarrow> string option \<Rightarrow> ('e, 'i, 'w) state
     \<Rightarrow> ('e + 'i option) \<times> ('e, 'i, 'w) state" where
  "call_List k g ns st =
     (let (r, w') = dynamicClient_List k g ns (fst st)
      in (r, (w', snd st @ [List_call g ns r])))"

section \<open>findGVR\<close>

subsection \<open>Fully qualified names\<close>

definition fullyQualified :: "string \<Rightarrow> GroupVersionResource option" where
  "fullyQualified resourceName =
     (if strings_Contains resourceName ''.'' then
        (let parts = strings_Split resourceName CHR ''.''
         in if 3 \<le> length parts then
              Some \<lparr>Group = strings_Join (drop 2 parts) ''.'',
                    Version = parts ! 1,
                    Resource = parts ! 0\<rparr>
            else None)
      else None)"

subsection \<open>Case variations of a kind name\<close>

text \<open>
  The four spellings, built in the order of the slice literal; the last one indexes the
  first byte, converts it to a string and slices the rest; the index and the slice may
  panic.
\<close>

definition kindVariations :: "strings_package \<Rightarrow> string \<Rightarrow> string list outcome" where
  "kindVariations L resourceName =
     (case string_index0 resourceName of
        Panics \<Rightarrow> Panics
      | Returns c \<Rightarrow>
          (case string_slice1 resourceName of
             Panics \<Rightarrow> Panics
           | Returns rest \<Rightarrow>
               Returns [resourceName,
                        strings_Title L resourceName,
                        strings_ToUpper L resourceName,
                        strings_ToUpper L (string_of_byte c) @ strings_ToLower L rest]))"

fun kindLoop ::
  "('e, 'i, 'w) KubeGet \<Rightarrow> string list \<Rightarrow> ('e, 'i, 'w) state
     \<Rightarrow> GroupVersionResource option \<times> ('e, 'i, 'w) state" where
  "kindLoop k [] st = (None, st)"
| "kindLoop k (kind # kinds) st =
     (case call_RESTMappings k \<lparr>gk_Group = [], gk_Kind = kind\<rparr> st of
        (Inr (m # ms), st') \<Rightarrow> (Some (mapping_Resource m), st')
      | (Inr [], st') \<Rightarrow> kindLoop k kinds st'
      | (Inl err, st') \<Rightarrow> kindLoop k kinds st')"

subsection \<open>The scan of the discovery snapshot\<close>

text \<open>
  \<open>schema.ParseGroupVersion\<close> of apimachinery: the empty string and "/" give the empty
  group-version, a string without a slash is a version of the core group, one slash
  separates group and version, and more than one slash is an error.
\<close>

definition ParseGroupVersion :: "string \<Rightarrow> GroupVersion option" where
  "ParseGroupVersion gv =
     (if length gv = 0 \<or> gv = ''/'' then Some \<lparr>gv_Group = [], gv_Version = []\<rparr>
      else (let n = count_list gv CHR ''/''
            in if n = 0 then Some \<lparr>gv_Group = [], gv_Version = gv\<rparr>
               else if n = 1 then
                 Some \<lparr>gv_Group = takeWhile (\<lambda>c. c \<noteq> CHR ''/'') gv,
                       gv_Version = tl (dropWhile (\<lambda>c. c \<noteq> CHR ''/'') gv)\<rparr>
               else None))"

definition WithResource :: "GroupVersion \<Rightarrow> string \<Rightarrow> GroupVersionResource" where
  "WithResource gv resource =
     \<lparr>Group = gv_Group gv, Version = gv_Version gv, Resource = resource\<rparr>"

fun shortNamesLoop :: "string \<Rightarrow> string list \<Rightarrow> bool" where
  "shortNamesLoop resourceName [] = False"
| "shortNamesLoop resourceName (shortName # shortNames) =
     (if shortName = resourceName then True
      else shortNamesLoop resourceName shortNames)"

fun resourcesLoop ::
  "strings_package \<Rightarrow> GroupVersion \<Rightarrow> string \<Rightarrow> APIResource list \<Rightarrow> GroupVersionResource option" where
  "resourcesLoop L gv resourceName [] = None"
| "resourcesLoop L gv resourceName (apiResource # rest) =
     (if Name apiResource = resourceName
         \<or> strings_EqualFold L (Kind apiResource) resourceName
      then Some (WithResource gv (Name apiResource))
      else if shortNamesLoop resourceName (ShortNames apiResource)
      then Some (WithResource gv (Name apiResource))
      else resourcesLoop L gv resourceName rest)"

fun listsLoop ::
  "strings_package \<Rightarrow> string \<Rightarrow> APIResourceList option list \<Rightarrow> GroupVersionResource option" where
  "listsLoop L resourceName [] = None"
| "listsLoop L resourceName (None # rest) = listsLoop L resourceName rest"
| "listsLoop L resourceName (Some apiResourceList # rest) =
     (case ParseGroupVersion (GroupVersion apiResourceList) of
        None \<Rightarrow> listsLoop L resourceName rest
      | Some gv \<Rightarrow>
          (case resourcesLoop L gv resourceName (APIResources apiResourceList) of
             Some gvr \<Rightarrow> Some gvr
           | None \<Rightarrow> listsLoop L resourceName rest))"

subsection \<open>The strategies in their order\<close>

text \<open>
  \<open>findGVR\<close> is one function in the program. It is cut here where one strategy hands
  over to the next, last strategy first: \<open>aliasScan\<close> is the discovery call and the
  scan, \<open>kindVariationRetry\<close> the loop over the spellings, \<open>kindLookup\<close> the lookup of
  the name as a Kind, \<open>resourceLookup\<close> the lookup of the name as a resource, and
  \<open>findGVR\<close> the guard against the empty name and the fully qualified form. A
  result is \<open>Panics\<close>, or \<open>Returns\<close> of an error or a descriptor. The first
  argument \<open>L\<close> is the package of the case functions.
\<close>

type_synonym ('e, 'i, 'w) resolution =
  "('e error + GroupVersionResource) outcome \<times> ('e, 'i, 'w) state"

definition aliasScan ::
  "strings_package \<Rightarrow> ('e, 'i, 'w) KubeGet \<Rightarrow> string \<Rightarrow> ('e, 'i, 'w) state \<Rightarrow> ('e, 'i, 'w) resolution" where
  "aliasScan L k resourceName st =
     (case call_ServerPreferredResources k st of
        (Inl err, st') \<Rightarrow>
          (Returns (Inl (ErrFindResource resourceName (Provider err))), st')
      | (Inr apiResourceLists, st') \<Rightarrow>
          (case listsLoop L resourceName apiResourceLists of
             Some gvr \<Rightarrow> (Returns (Inr gvr), st')
           | None \<Rightarrow> (Returns (Inl (ErrNotFound resourceName)), st')))"

definition kindVariationRetry ::
  "strings_package \<Rightarrow> ('e, 'i, 'w) KubeGet \<Rightarrow> string \<Rightarrow> ('e, 'i, 'w) state \<Rightarrow> ('e, 'i, 'w) resolution" where
  "kindVariationRetry L k resourceName st =
     (case kindVariations L resourceName of
        Panics \<Rightarrow> (Panics, st)
      | Returns kinds \<Rightarrow>
          (case kindLoop k kinds st of
             (Some gvr, st') \<Rightarrow> (Returns (Inr gvr), st')
           | (None, st') \<Rightarrow> aliasScan L k resourceName st'))"

definition kindLookup ::
  "strings_package \<Rightarrow> ('e, 'i, 'w) KubeGet \<Rightarrow> string \<Rightarrow> ('e, 'i, 'w) state \<Rightarrow> ('e, 'i, 'w) resolution" where
  "kindLookup L k resourceName st =
     (case call_RESTMappings k \<lparr>gk_Group = [], gk_Kind = resourceName\<rparr> st of
        (Inr (m # ms), st') \<Rightarrow> (Returns (Inr (mapping_Resource m)), st')
      | (Inr [], st') \<Rightarrow> kindVariationRetry L k resourceName st'
      | (Inl err, st') \<Rightarrow> kindVariationRetry L k resourceName st')"

definition resourceLookup ::
  "strings_package \<Rightarrow> ('e, 'i, 'w) KubeGet \<Rightarrow> string \<Rightarrow> ('e, 'i, 'w) state \<Rightarrow> ('e, 'i, 'w) resolution" where
  "resourceLookup L k resourceName st =
     (case call_ResourceFor k \<lparr>Group = [], Version = [], Resource = resourceName\<rparr> st of
        (Inr gvr, st') \<Rightarrow> (Returns (Inr gvr), st')
      | (Inl err, st') \<Rightarrow> kindLookup L k resourceName st')"

definition findGVR ::
  "strings_package \<Rightarrow> ('e, 'i, 'w) KubeGet \<Rightarrow> string \<Rightarrow> ('e, 'i, 'w) state \<Rightarrow> ('e, 'i, 'w) resolution" where
  "findGVR L k resourceName st =
     (if resourceName = [] then (Returns (Inl ErrEmptyName), st)
      else (case fullyQualified resourceName of
              Some gvr \<Rightarrow> (Returns (Inr gvr), st)
            | None \<Rightarrow> resourceLookup L k resourceName st))"

section \<open>Get\<close>

text \<open>
  \<open>Get\<close> returns a descriptor, a pointer to the collection (\<open>None\<close> is nil) and an
  error (\<open>None\<close> is nil).
\<close>

definition Get ::
  "strings_package \<Rightarrow> ('e, 'i, 'w) KubeGet \<Rightarrow> string \<Rightarrow> string \<Rightarrow> ('e, 'i, 'w) state
     \<Rightarrow> (GroupVersionResource \<times> 'i option \<times> 'e error option) outcome \<times> ('e, 'i, 'w) state" where
  "Get L k resourceName namespace st =
     (case findGVR L k resourceName st of
        (Panics, st') \<Rightarrow> (Panics, st')
      | (Returns (Inl err), st') \<Rightarrow>
          (Returns (\<lparr>Group = [], Version = [], Resource = []\<rparr>, None,
                    Some (ErrFindResource resourceName err)), st')
      | (Returns (Inr gvr), st') \<Rightarrow>
          (case call_List k gvr (if namespace \<noteq> [] then Some namespace else None) st' of
             (Inl err, st'') \<Rightarrow> (Returns (gvr, None, Some (ErrList (Provider err))), st'')
           | (Inr list, st'') \<Rightarrow> (Returns (gvr, list, None), st'')))"

section \<open>Vocabulary of the call logs\<close>

text \<open>
  A Kind lookup misses when it does not satisfy the program's test
  \<open>err == nil && len(mappings) > 0\<close>.
\<close>

definition miss :: "'e + RESTMapping list \<Rightarrow> bool" where
  "miss r = (case r of Inl err \<Rightarrow> True | Inr mappings \<Rightarrow> length mappings = 0)"

text \<open>The log entries of Kind lookups for a list of spellings, with their results.\<close>

definition kind_calls :: "string list \<Rightarrow> ('e + RESTMapping list) list \<Rightarrow> ('e, 'i) call list" where
  "kind_calls kinds rs =
     map2 (\<lambda>kind r. RESTMappings_call \<lparr>gk_Group = [], gk_Kind = kind\<rparr> r) kinds rs"

text \<open>
  What \<open>findGVR\<close> returns after the discovery call, as a function of that call's
  result (the end of \<open>aliasScan\<close>).
\<close>

definition scan_result :: "strings_package \<Rightarrow> string \<Rightarrow> 'e + APIResourceList option list \<Rightarrow> 'e error + GroupVersionResource" where
  "scan_result L resourceName r =
     (case r of
        Inl err \<Rightarrow> Inl (ErrFindResource resourceName (Provider err))
      | Inr apiResourceLists \<Rightarrow>
          (case listsLoop L resourceName apiResourceLists of
             Some gvr \<Rightarrow> Inr gvr
           | None \<Rightarrow> Inl (ErrNotFound resourceName)))"

section \<open>Letter case as the specification words it\<close>

text \<open>
  The definitions of this section are written from the words of the specification, not
  from the Go library: the letters are given by their alphabets, a word character is a
  letter, a digit or an underscore, and capitalising the words of a string puts in upper
  case the character at the beginning and every character that follows a character
  which is not a word character.
\<close>

definition lower_letters :: string where
  "lower_letters = ''abcdefghijklmnopqrstuvwxyz''"

definition upper_letters :: string where
  "upper_letters = ''ABCDEFGHIJKLMNOPQRSTUVWXYZ''"

definition digits :: string where
  "digits = ''0123456789''"

definition uppercased :: "char \<Rightarrow> char" where
  "uppercased c =
     (case map_of (zip lower_letters upper_letters) c of Some u \<Rightarrow> u | None \<Rightarrow> c)"

definition lowercased :: "char \<Rightarrow> char" where
  "lowercased c =
     (case map_of (zip upper_letters lower_letters) c of Some l \<Rightarrow> l | None \<Rightarrow> c)"

definition word_character :: "char \<Rightarrow> bool" where
  "word_character c = (c \<in> set (lower_letters @ upper_letters @ digits @ ''_''))"

fun words_capitalized :: "bool \<Rightarrow> string \<Rightarrow> string" where
  "words_capitalized at_start [] = []"
| "words_capitalized at_start (c # cs) =
     (if at_start then uppercased c else c) # words_capitalized (\<not> word_character c) cs"

section \<open>The scan as the specification words it\<close>

text \<open>
  The definitions of this section follow the words of the specification, not the
  program; the theorems compare them with the loops of \<open>findGVR\<close>. An entry matches
  a name when the name is its plural resource name, or equals its Kind up to the case
  of the letters, as \<open>strings.EqualFold\<close> compares, or is one of its short names.
\<close>

definition entry_matches :: "strings_package \<Rightarrow> string \<Rightarrow> APIResource \<Rightarrow> bool" where
  "entry_matches L resourceName entry =
     (Name entry = resourceName
      \<or> strings_EqualFold L (Kind entry) resourceName
      \<or> resourceName \<in> set (ShortNames entry))"

text \<open>
  The entries of a snapshot in its iteration order, list after list, each with the
  group-version string of its list; and those of them whose group-version string
  parses, with the parsed group-version.
\<close>

definition snapshot_entries :: "APIResourceList option list \<Rightarrow> (string \<times> APIResource) list" where
  "snapshot_entries apiResourceLists =
     concat (map (\<lambda>l. case l of
                         None \<Rightarrow> []
                       | Some apiResourceList \<Rightarrow>
                           map (Pair (GroupVersion apiResourceList)) (APIResources apiResourceList))
                 apiResourceLists)"

definition parsed_entries :: "APIResourceList option list \<Rightarrow> (GroupVersion \<times> APIResource) list" where
  "parsed_entries apiResourceLists =
     concat (map (\<lambda>p. case ParseGroupVersion (fst p) of
                         None \<Rightarrow> []
                       | Some gv \<Rightarrow> [(gv, snd p)])
                 (snapshot_entries apiResourceLists))"

definition first_match ::
  "strings_package \<Rightarrow> string \<Rightarrow> ('a \<times> APIResource) list \<Rightarrow> ('a \<times> APIResource) option" where
  "first_match L resourceName entries =
     find (\<lambda>p. entry_matches L resourceName (snd p)) entries"

definition entry_descriptor :: "GroupVersion \<times> APIResource \<Rightarrow> GroupVersionResource" where
  "entry_descriptor p = WithResource (fst p) (Name (snd p))"

section \<open>Identifiers carried by an error\<close>

text \<open>
  The names that the wrappers of an error carry: the arguments of \<open>%q\<close> in the
  format strings. No format string of the program takes a descriptor.
\<close>

fun error_identifiers :: "'e error \<Rightarrow> string list" where
  "error_identifiers (Provider e) = []"
| "error_identifiers ErrEmptyName = []"
| "error_identifiers (ErrFindResource resourceName err) = resourceName # error_identifiers err"
| "error_identifiers (ErrNotFound resourceName) = [resourceName]"
| "error_identifiers (ErrList err) = error_identifiers err"

section \<open>Example clusters\<close>

text \<open>
  Two clusters on which the theorems are run. The world is a counter of the requests
  the cluster has served. On \<open>unreachable_cluster\<close> every request fails;
  \<open>demo_cluster\<close> knows the resource "pods" and the kind "Node", lists everything
  but cluster-scoped nodes under a namespace, and advertises pods, nodes and a custom
  resource with the short name "dspa".
\<close>

definition unreachable_cluster :: "(string, string, nat) KubeGet" where
  "unreachable_cluster =
     \<lparr>restMapper_ResourceFor = (\<lambda>g w. (Inl ''connection refused'', Suc w)),
      restMapper_RESTMappings = (\<lambda>gk w. (Inl ''connection refused'', Suc w)),
      discoveryClient_ServerPreferredResources = (\<lambda>w. (Inl ''connection refused'', Suc w)),
      dynamicClient_List = (\<lambda>g ns w. (Inl ''connection refused'', Suc w))\<rparr>"

definition demo_snapshot :: "APIResourceList option list" where
  "demo_snapshot =
     [None,
      Some \<lparr>GroupVersion = ''v1'',
            APIResources =
              [\<lparr>Name = ''pods'', Kind = ''Pod'', ShortNames = [''po''], Namespaced = True\<rparr>,
               \<lparr>Name = ''nodes'', Kind = ''Node'', ShortNames = [''no''], Namespaced = False\<rparr>]\<rparr>,
      Some \<lparr>GroupVersion = ''datasciencepipelinesapplications.opendatahub.io/v1'',
            APIResources =
              [\<lparr>Name = ''datasciencepipelinesapplications'',
                Kind = ''DataSciencePipelinesApplication'',
                ShortNames = [''dspa''], Namespaced = True\<rparr>]\<rparr>]"

definition demo_cluster :: "(string, string, nat) KubeGet" where
  "demo_cluster =
     \<lparr>restMapper_ResourceFor =
        (\<lambda>g w. (if Resource g = ''pods''
                 then Inr \<lparr>Group = [], Version = ''v1'', Resource = ''pods''\<rparr>
                 else Inl ''no matches for resource'', Suc w)),
      restMapper_RESTMappings =
        (\<lambda>gk w. (if gk_Kind gk = ''Node''
                  then Inr [\<lparr>mapping_Resource = \<lparr>Group = [], Version = ''v1'', Resource = ''nodes''\<rparr>,
                             mapping_Kind = \<lparr>gk_Group = [], gk_Kind = ''Node''\<rparr>\<rparr>]
                  else Inl ''no matches for kind'', Suc w)),
      discoveryClient_ServerPreferredResources = (\<lambda>w. (Inr demo_snapshot, Suc w)),
      dynamicClient_List =
        (\<lambda>g ns w. (if Resource g = ''nodes'' \<and> ns \<noteq> None
                    then Inl ''the server could not find the requested resource''
                    else Inr (Some ''items''), Suc w))\<rparr>"

text \<open>
  A snapshot whose first list has a group-version string with two slashes.
\<close>

definition skipped_snapshot :: "APIResourceList option list" where
  "skipped_snapshot =
     [Some \<lparr>GroupVersion = ''example.io/v1/beta'',
            APIResources =
              [\<lparr>Name = ''widgets'', Kind = ''Widget'', ShortNames = [''wd''], Namespaced = True\<rparr>]\<rparr>,
      Some \<lparr>GroupVersion = ''example.io/v2'',
            APIResources =
              [\<lparr>Name = ''wadgets'', Kind = ''Wadget'', ShortNames = [''wd''], Namespaced = True\<rparr>]\<rparr>]"

section \<open>Properties of the string functions\<close>

lemma strings_Contains_byte: "strings_Contains s [d] \<longleftrightarrow> d \<in> set s"
  by (induction s) auto

lemma strings_Split_without_sep: "d \<notin> set s \<Longrightarrow> strings_Split s d = [s]"
  by (induction s) auto

lemma strings_Split_three_has_sep:
  assumes "3 \<le> length (strings_Split s d)"
  shows "d \<in> set s"
proof (rule ccontr)
  assume "d \<notin> set s"
  then have "strings_Split s d = [s]"
    by (rule strings_Split_without_sep)
  with assms show False by simp
qed

text \<open>
  Bytes, alphabets and case: the ASCII functions of the library do what the words of
  the specification say. A separator is a character that is not a word character,
  \<open>Title\<close> capitalises the words, \<open>ToUpper\<close> and \<open>ToLower\<close> map the letters through
  the alphabets, and \<open>EqualFold\<close> holds exactly when the two strings are equal after
  lower-casing.
\<close>

lemma byte_lt_256: "byte c < 256"
  by (simp add: byte_def)

lemma byte_inject: "byte a = byte b \<longleftrightarrow> a = b"
  by (simp add: byte_def)

lemma byte_char_of: "n < 256 \<Longrightarrow> byte (char_of n) = n"
  by (simp add: byte_def)

lemma char_of_byte: "char_of (byte c) = c"
  by (simp add: byte_def)

lemma byte_consts:
  "byte CHR ''a'' = 97" "byte CHR ''z'' = 122" "byte CHR ''A'' = 65" "byte CHR ''Z'' = 90"
  "byte CHR ''0'' = 48" "byte CHR ''9'' = 57" "byte CHR ''_'' = 95" "byte CHR '' '' = 32"
  by (simp_all add: byte_def)

lemma lower_letters_bytes: "map byte lower_letters = [97..<123]"
  unfolding lower_letters_def by code_simp

lemma upper_letters_bytes: "map byte upper_letters = [65..<91]"
  unfolding upper_letters_def by code_simp

lemma digits_bytes: "map byte digits = [48..<58]"
  unfolding digits_def by code_simp

lemma in_set_bytes: "c \<in> set s \<longleftrightarrow> byte c \<in> set (map byte s)"
  by (auto simp: byte_inject)

lemma lower_letters_iff: "c \<in> set lower_letters \<longleftrightarrow> 97 \<le> byte c \<and> byte c \<le> 122"
proof -
  have "c \<in> set lower_letters \<longleftrightarrow> byte c \<in> set [97..<123]"
    by (subst in_set_bytes) (simp only: lower_letters_bytes)
  also have "\<dots> \<longleftrightarrow> 97 \<le> byte c \<and> byte c \<le> 122"
    unfolding set_upt atLeastLessThan_iff by arith
  finally show ?thesis .
qed

lemma upper_letters_iff: "c \<in> set upper_letters \<longleftrightarrow> 65 \<le> byte c \<and> byte c \<le> 90"
proof -
  have "c \<in> set upper_letters \<longleftrightarrow> byte c \<in> set [65..<91]"
    by (subst in_set_bytes) (simp only: upper_letters_bytes)
  also have "\<dots> \<longleftrightarrow> 65 \<le> byte c \<and> byte c \<le> 90"
    unfolding set_upt atLeastLessThan_iff by arith
  finally show ?thesis .
qed

lemma digits_iff: "c \<in> set digits \<longleftrightarrow> 48 \<le> byte c \<and> byte c \<le> 57"
proof -
  have "c \<in> set digits \<longleftrightarrow> byte c \<in> set [48..<58]"
    by (subst in_set_bytes) (simp only: digits_bytes)
  also have "\<dots> \<longleftrightarrow> 48 \<le> byte c \<and> byte c \<le> 57"
    unfolding set_upt atLeastLessThan_iff by arith
  finally show ?thesis .
qed

lemma ascii_isSeparator_iff: "ascii_isSeparator c \<longleftrightarrow> \<not> word_character c"
  by (auto simp: ascii_isSeparator_def word_character_def byte_consts
                 lower_letters_iff upper_letters_iff digits_iff)


lemma letters_length: "length lower_letters = length upper_letters"
  by (simp add: lower_letters_def upper_letters_def)

lemma uppercased_other: "c \<notin> set lower_letters \<Longrightarrow> uppercased c = c"
proof -
  assume "c \<notin> set lower_letters"
  then have "c \<notin> fst ` set (zip lower_letters upper_letters)"
    using letters_length by (simp add: map_fst_zip flip: set_map)
  then have "map_of (zip lower_letters upper_letters) c = None"
    by (simp add: map_of_eq_None_iff)
  then show ?thesis
    by (simp add: uppercased_def)
qed

lemma lowercased_other: "c \<notin> set upper_letters \<Longrightarrow> lowercased c = c"
proof -
  assume "c \<notin> set upper_letters"
  then have "c \<notin> fst ` set (zip upper_letters lower_letters)"
    using letters_length by (simp add: map_fst_zip flip: set_map)
  then have "map_of (zip upper_letters lower_letters) c = None"
    by (simp add: map_of_eq_None_iff)
  then show ?thesis
    by (simp add: lowercased_def)
qed

lemma ascii_upper_letter: "c \<in> set lower_letters \<Longrightarrow> ascii_upper c = uppercased c"
  apply (simp only: lower_letters_def list.set insert_iff empty_iff)
  apply (elim disjE FalseE; hypsubst; code_simp)
  done

lemma ascii_lower_letter: "c \<in> set upper_letters \<Longrightarrow> ascii_lower c = lowercased c"
  apply (simp only: upper_letters_def list.set insert_iff empty_iff)
  apply (elim disjE FalseE; hypsubst; code_simp)
  done

lemma ascii_upper_uppercased: "ascii_upper c = uppercased c"
proof (cases "c \<in> set lower_letters")
  case True
  then show ?thesis
    by (rule ascii_upper_letter)
next
  case False
  then have "ascii_upper c = c"
    by (auto simp: ascii_upper_def byte_consts lower_letters_iff)
  with False show ?thesis
    by (simp add: uppercased_other)
qed

lemma ascii_lower_lowercased: "ascii_lower c = lowercased c"
proof (cases "c \<in> set upper_letters")
  case True
  then show ?thesis
    by (rule ascii_lower_letter)
next
  case False
  then have "ascii_lower c = c"
    by (auto simp: ascii_lower_def byte_consts upper_letters_iff)
  with False show ?thesis
    by (simp add: lowercased_other)
qed


lemma ascii_Title_from_words:
  "ascii_Title_from prev s = words_capitalized (\<not> word_character prev) s"
  by (induction s arbitrary: prev)
     (simp_all add: ascii_isSeparator_iff ascii_upper_uppercased)

lemma space_no_word_character: "\<not> word_character CHR '' ''"
  using ascii_isSeparator_iff [of "CHR '' ''"]
  by (simp add: ascii_isSeparator_def byte_consts)

lemma ascii_Title_words: "ascii_Title s = words_capitalized True s"
  by (simp add: ascii_Title_def ascii_Title_from_words space_no_word_character)

lemma words_capitalized_word:
  "list_all word_character s \<Longrightarrow> words_capitalized False s = s"
  by (induction s) simp_all

lemma words_capitalized_single_word:
  "list_all word_character (c # cs) \<Longrightarrow>
   words_capitalized True (c # cs) = uppercased c # cs"
  by (simp add: words_capitalized_word)

lemma ascii_ToUpper_uppercased: "ascii_ToUpper s = map uppercased s"
  by (simp add: ascii_ToUpper_def ascii_upper_uppercased)

lemma ascii_ToLower_lowercased: "ascii_ToLower s = map lowercased s"
  by (simp add: ascii_ToLower_def ascii_lower_lowercased)

lemma byte_ascii_lower:
  "byte (ascii_lower c) = (if 65 \<le> byte c \<and> byte c \<le> 90 then byte c + 32 else byte c)"
  by (simp add: ascii_lower_def byte_consts byte_char_of)

lemma fold_byte:
  "(a = b \<or> (65 \<le> min (byte a) (byte b) \<and> min (byte a) (byte b) \<le> 90
              \<and> max (byte a) (byte b) = min (byte a) (byte b) + 32))
   \<longleftrightarrow> ascii_lower a = ascii_lower b"
proof -
  have "ascii_lower a = ascii_lower b
        \<longleftrightarrow> byte (ascii_lower a) = byte (ascii_lower b)"
    by (simp add: byte_inject)
  moreover have "a = b \<longleftrightarrow> byte a = byte b"
    by (simp add: byte_inject)
  ultimately show ?thesis
    unfolding byte_ascii_lower by (auto simp: min_def max_def)
qed

lemma ascii_EqualFold_iff:
  "ascii_EqualFold s t \<longleftrightarrow> map lowercased s = map lowercased t"
proof (induction s t rule: ascii_EqualFold.induct)
  case 1
  then show ?case by simp
next
  case (2 tr t)
  then show ?case by simp
next
  case (3 sr s)
  then show ?case by simp
next
  case (4 sr s tr t)
  have f: "(sr = tr \<or> (65 \<le> min (byte sr) (byte tr) \<and> min (byte sr) (byte tr) \<le> 90
              \<and> max (byte sr) (byte tr) = min (byte sr) (byte tr) + 32))
       \<longleftrightarrow> lowercased sr = lowercased tr"
    using fold_byte [of sr tr] by (simp add: ascii_lower_lowercased)
  show ?case
  proof (cases "tr = sr")
    case True
    with 4 show ?thesis
      by simp
  next
    case False
    show ?thesis
    proof (cases "65 \<le> min (byte sr) (byte tr) \<and> min (byte sr) (byte tr) \<le> 90
              \<and> max (byte sr) (byte tr) = min (byte sr) (byte tr) + 32")
      case True
      with f have "lowercased sr = lowercased tr"
        by blast
      with True False 4 show ?thesis
        by (simp add: byte_consts Let_def)
    next
      case no: False
      with f False have "lowercased sr \<noteq> lowercased tr"
        by blast
      with no False show ?thesis
        by (auto simp: byte_consts Let_def)
    qed
  qed
qed

lemma ascii_Cons: "ascii (c # cs) \<longleftrightarrow> byte c < 128 \<and> ascii cs"
  by (simp add: ascii_def)

lemma string_of_byte_ascii: "byte c < 128 \<Longrightarrow> string_of_byte c = [c]"
  by (simp add: string_of_byte_def)

text \<open>
  A byte from \<open>0x80\<close> on becomes two bytes: \<open>0xC3\<close>, the first byte of many accented
  letters, becomes \<open>0xC3 0x83\<close>.
\<close>

lemma string_of_byte_high:
  "string_of_byte (char_of (195 :: nat)) = [char_of (195 :: nat), char_of (131 :: nat)]"
  by code_simp

lemma length_string_of_byte: "length (string_of_byte b) = (if byte b < 128 then 1 else 2)"
  by (simp add: string_of_byte_def)

lemma ascii_package_exact: "ascii_exact ascii_package"
  by (simp add: ascii_exact_def ascii_package_def)

section \<open>Fully qualified names and the empty name\<close>

text \<open>
  C1. A name that splits on dots into three or more segments is resolved without any
  call of a collaborator (the state, world and log, comes back as it went in), whatever
  the cluster holds: the descriptor has segment 0 as resource, segment 1 as version and
  the remaining segments, joined with dots, as group. In particular "pods.v1." gives
  the core group, version v1, resource pods.
\<close>

theorem findGVR_fully_qualified:
  assumes "3 \<le> length (strings_Split resourceName CHR ''.'')"
  shows "findGVR L k resourceName st =
           (Returns (Inr \<lparr>Group = strings_Join (drop 2 (strings_Split resourceName CHR ''.'')) ''.'',
                          Version = strings_Split resourceName CHR ''.'' ! 1,
                          Resource = strings_Split resourceName CHR ''.'' ! 0\<rparr>), st)
         \<and> findGVR L k ''pods.v1.'' st =
             (Returns (Inr \<lparr>Group = [], Version = ''v1'', Resource = ''pods''\<rparr>), st)"
proof
  have dot: "CHR ''.'' \<in> set resourceName"
    using assms by (rule strings_Split_three_has_sep)
  then have "resourceName \<noteq> []"
    by auto
  moreover have "strings_Contains resourceName ''.''"
    using dot by (simp add: strings_Contains_byte)
  ultimately show "findGVR L k resourceName st =
           (Returns (Inr \<lparr>Group = strings_Join (drop 2 (strings_Split resourceName CHR ''.'')) ''.'',
                          Version = strings_Split resourceName CHR ''.'' ! 1,
                          Resource = strings_Split resourceName CHR ''.'' ! 0\<rparr>), st)"
    using assms by (simp add: findGVR_def fullyQualified_def Let_def)
next
  show "findGVR L k ''pods.v1.'' st =
          (Returns (Inr \<lparr>Group = [], Version = ''v1'', Resource = ''pods''\<rparr>), st)"
    by (simp add: findGVR_def fullyQualified_def)
qed

theorem findGVR_fully_qualified_witness:
  "3 \<le> length (strings_Split ''foo.v1.example.opendatahub.io'' CHR ''.'')
   \<and> findGVR ascii_package unreachable_cluster ''foo.v1.example.opendatahub.io'' (0, []) =
       (Returns (Inr \<lparr>Group = ''example.opendatahub.io'', Version = ''v1'', Resource = ''foo''\<rparr>),
        (0, []))"
proof -
  have h: "3 \<le> length (strings_Split ''foo.v1.example.opendatahub.io'' CHR ''.'')"
    by simp
  show ?thesis
    using h findGVR_fully_qualified [OF h, of ascii_package unreachable_cluster "(0, [])"] by simp
qed

text \<open>
  C2. The empty name fails with the error "resource name cannot be empty", and the state
  comes back unchanged: no collaborator was called.
\<close>

theorem findGVR_empty_name:
  "findGVR L k [] st = (Returns (Inl ErrEmptyName), st)"
  by (simp add: findGVR_def)

section \<open>Call logs of the strategies\<close>

lemma call_ResourceFor_log:
  "call_ResourceFor k g st = (r, st') \<Longrightarrow>
   snd st' = snd st @ [ResourceFor_call g r]
   \<and> restMapper_ResourceFor k g (fst st) = (r, fst st')"
  by (auto simp: call_ResourceFor_def split: prod.splits)

lemma call_RESTMappings_log:
  "call_RESTMappings k gk st = (r, st') \<Longrightarrow>
   snd st' = snd st @ [RESTMappings_call gk r]
   \<and> restMapper_RESTMappings k gk (fst st) = (r, fst st')"
  by (auto simp: call_RESTMappings_def split: prod.splits)

lemma call_ServerPreferredResources_log:
  "call_ServerPreferredResources k st = (r, st') \<Longrightarrow>
   snd st' = snd st @ [ServerPreferredResources_call r]
   \<and> discoveryClient_ServerPreferredResources k (fst st) = (r, fst st')"
  by (auto simp: call_ServerPreferredResources_def split: prod.splits)

lemma call_List_log:
  "call_List k g ns st = (r, st') \<Longrightarrow>
   snd st' = snd st @ [List_call g ns r]
   \<and> dynamicClient_List k g ns (fst st) = (r, fst st')"
  by (auto simp: call_List_def split: prod.splits)

lemma kindVariations_nonempty:
  "resourceName \<noteq> [] \<Longrightarrow>
   kindVariations L resourceName =
     Returns [resourceName, strings_Title L resourceName, strings_ToUpper L resourceName,
              strings_ToUpper L (string_of_byte (hd resourceName)) @ strings_ToLower L (tl resourceName)]"
  by (cases resourceName) (simp_all add: kindVariations_def string_index0_def string_slice1_def)

lemma not_miss: "\<not> miss r \<Longrightarrow> \<exists>m ms. r = Inr (m # ms)"
  by (cases r) (simp_all add: miss_def neq_Nil_conv)

lemma kindLoop_hit:
  "call_RESTMappings k \<lparr>gk_Group = [], gk_Kind = kind\<rparr> st = (Inr (m # ms), st1) \<Longrightarrow>
   kindLoop k (kind # kinds) st = (Some (mapping_Resource m), st1)"
  by simp

lemma kindLoop_miss:
  "call_RESTMappings k \<lparr>gk_Group = [], gk_Kind = kind\<rparr> st = (r, st1) \<Longrightarrow> miss r \<Longrightarrow>
   kindLoop k (kind # kinds) st = kindLoop k kinds st1"
  by (cases r) (auto simp: miss_def)

text \<open>
  The loop over the spellings calls the Kind lookup on a prefix of the list, in order;
  it stops at the first call that does not miss, and returns the resource of the first
  mapping of that call.
\<close>

lemma kindLoop_trace:
  fixes k :: "('e, 'i, 'w) KubeGet"
  shows "kindLoop k kinds st = (res, st') \<Longrightarrow>
   \<exists>n rs. n \<le> length kinds \<and> length rs = n
     \<and> snd st' = snd st @ kind_calls (take n kinds) rs
     \<and> (case res of
           None \<Rightarrow> n = length kinds \<and> list_all miss rs
         | Some gvr \<Rightarrow> 0 < n \<and> list_all miss (butlast rs)
                        \<and> (\<exists>m ms. last rs = Inr (m # ms) \<and> gvr = mapping_Resource m))"
proof (induction kinds arbitrary: st)
  case Nil
  then have "res = None" "st' = st"
    by simp_all
  then show ?case
    by (simp add: kind_calls_def)
next
  case (Cons kind kinds)
  obtain r st1 where c: "call_RESTMappings k \<lparr>gk_Group = [], gk_Kind = kind\<rparr> st = (r, st1)"
    by (cases "call_RESTMappings k \<lparr>gk_Group = [], gk_Kind = kind\<rparr> st")
  from call_RESTMappings_log [OF c]
  have log1: "snd st1 = snd st @ [RESTMappings_call \<lparr>gk_Group = [], gk_Kind = kind\<rparr> r]"
    by simp
  show ?case
  proof (cases "miss r")
    case True
    from kindLoop_miss [OF c True] Cons.prems have rest: "kindLoop k kinds st1 = (res, st')"
      by (simp del: kindLoop.simps)
    from Cons.IH [OF rest] obtain n rs where h: "n \<le> length kinds" "length rs = n"
      "snd st' = snd st1 @ kind_calls (take n kinds) rs"
      "case res of
           None \<Rightarrow> n = length kinds \<and> list_all miss rs
         | Some gvr \<Rightarrow> 0 < n \<and> list_all miss (butlast rs)
                        \<and> (\<exists>m ms. last rs = Inr (m # ms) \<and> gvr = mapping_Resource m)"
      by blast
    have a: "Suc n \<le> length (kind # kinds)" "length (r # rs) = Suc n"
      using h(1,2) by simp_all
    have b: "snd st' = snd st @ kind_calls (take (Suc n) (kind # kinds)) (r # rs)"
      using h(3) log1 by (simp add: kind_calls_def)
    have d: "case res of
           None \<Rightarrow> Suc n = length (kind # kinds) \<and> list_all miss (r # rs)
         | Some gvr \<Rightarrow> 0 < Suc n \<and> list_all miss (butlast (r # rs))
                        \<and> (\<exists>m ms. last (r # rs) = Inr (m # ms) \<and> gvr = mapping_Resource m)"
    proof (cases res)
      case None
      with h(4) True show ?thesis by simp
    next
      case (Some gvr)
      with h(4) h(2) have "rs \<noteq> []" by auto
      with Some h(4) True show ?thesis by simp
    qed
    from a b d show ?thesis
      by blast
  next
    case False
    from not_miss [OF False] obtain m ms where r: "r = Inr (m # ms)"
      by blast
    from kindLoop_hit [OF c [unfolded r]] Cons.prems
    have res: "res = Some (mapping_Resource m)" and st': "st' = st1"
      by (simp_all del: kindLoop.simps)
    have a: "Suc 0 \<le> length (kind # kinds)" "length [r] = Suc 0"
      by simp_all
    have b: "snd st' = snd st @ kind_calls (take (Suc 0) (kind # kinds)) [r]"
      using log1 st' by (simp add: kind_calls_def)
    have d: "case res of
           None \<Rightarrow> Suc 0 = length (kind # kinds) \<and> list_all miss [r]
         | Some gvr \<Rightarrow> 0 < Suc 0 \<and> list_all miss (butlast [r])
                        \<and> (\<exists>m ms. last [r] = Inr (m # ms) \<and> gvr = mapping_Resource m)"
      using res r by simp
    from a b d show ?thesis
      by blast
  qed
qed

lemma aliasScan_trace:
  "aliasScan L k resourceName st = (out, st') \<Longrightarrow>
   \<exists>r. snd st' = snd st @ [ServerPreferredResources_call r]
       \<and> out = Returns (scan_result L resourceName r)"
proof -
  assume a: "aliasScan L k resourceName st = (out, st')"
  obtain r st1 where c: "call_ServerPreferredResources k st = (r, st1)"
    by (cases "call_ServerPreferredResources k st")
  from a c have "st' = st1" "out = Returns (scan_result L resourceName r)"
    by (auto simp: aliasScan_def scan_result_def split: sum.splits option.splits)
  with call_ServerPreferredResources_log [OF c] show ?thesis
    by blast
qed

lemma kindVariationRetry_trace:
  fixes k :: "('e, 'i, 'w) KubeGet"
  assumes "resourceName \<noteq> []"
    and "kindVariationRetry L k resourceName st = (out, st')"
  shows "(\<exists>n rs m ms. 0 < n \<and> n \<le> 4 \<and> length rs = n \<and> list_all miss (butlast rs)
            \<and> last rs = Inr (m # ms) \<and> out = Returns (Inr (mapping_Resource m))
            \<and> snd st' = snd st @ kind_calls (take n
                 [resourceName, strings_Title L resourceName, strings_ToUpper L resourceName,
                  strings_ToUpper L (string_of_byte (hd resourceName)) @ strings_ToLower L (tl resourceName)]) rs)
       \<or> (\<exists>rs r. length rs = 4 \<and> list_all miss rs
            \<and> out = Returns (scan_result L resourceName r)
            \<and> snd st' = snd st @ kind_calls
                 [resourceName, strings_Title L resourceName, strings_ToUpper L resourceName,
                  strings_ToUpper L (string_of_byte (hd resourceName)) @ strings_ToLower L (tl resourceName)] rs
                 @ [ServerPreferredResources_call r])"
proof -
  let ?kinds = "[resourceName, strings_Title L resourceName, strings_ToUpper L resourceName,
                  strings_ToUpper L (string_of_byte (hd resourceName)) @ strings_ToLower L (tl resourceName)]"
  have kv: "kindVariations L resourceName = Returns ?kinds"
    using assms(1) by (rule kindVariations_nonempty)
  obtain res st1 where l: "kindLoop k ?kinds st = (res, st1)"
    by (cases "kindLoop k ?kinds st")
  from kindLoop_trace [OF l] obtain n rs where h: "n \<le> length ?kinds" "length rs = n"
     "snd st1 = snd st @ kind_calls (take n ?kinds) rs"
     "case res of
           None \<Rightarrow> n = length ?kinds \<and> list_all miss rs
         | Some gvr \<Rightarrow> 0 < n \<and> list_all miss (butlast rs)
                        \<and> (\<exists>m ms. last rs = Inr (m # ms) \<and> gvr = mapping_Resource m)"
    by blast
  show ?thesis
  proof (cases res)
    case None
    with assms(2) kv l have "aliasScan L k resourceName st1 = (out, st')"
      by (simp add: kindVariationRetry_def del: kindLoop.simps)
    from aliasScan_trace [OF this] obtain r where
      r: "snd st' = snd st1 @ [ServerPreferredResources_call r]"
         "out = Returns (scan_result L resourceName r)"
      by blast
    from None h(4) have n: "n = 4" "list_all miss rs"
      by simp_all
    with h(2,3) r have "length rs = 4 \<and> list_all miss rs
            \<and> out = Returns (scan_result L resourceName r)
            \<and> snd st' = snd st @ kind_calls ?kinds rs @ [ServerPreferredResources_call r]"
      by simp
    then show ?thesis
      by blast
  next
    case (Some gvr)
    with assms(2) kv l have o: "out = Returns (Inr gvr)" "st' = st1"
      by (simp_all add: kindVariationRetry_def del: kindLoop.simps)
    from Some h(4) obtain m ms where m: "0 < n" "list_all miss (butlast rs)"
       "last rs = Inr (m # ms)" "gvr = mapping_Resource m"
      by auto
    with h(1,2,3) o have "0 < n \<and> n \<le> 4 \<and> length rs = n \<and> list_all miss (butlast rs)
            \<and> last rs = Inr (m # ms) \<and> out = Returns (Inr (mapping_Resource m))
            \<and> snd st' = snd st @ kind_calls (take n ?kinds) rs"
      by simp
    then show ?thesis
      by blast
  qed
qed

lemma findGVR_reaches_lookup:
  "resourceName \<noteq> [] \<Longrightarrow> fullyQualified resourceName = None \<Longrightarrow>
   findGVR L k resourceName st = resourceLookup L k resourceName st"
  by (simp add: findGVR_def)

lemma resourceLookup_trace:
  fixes k :: "('e, 'i, 'w) KubeGet"
  assumes "resourceName \<noteq> []"
    and "resourceLookup L k resourceName st = (Returns (Inl e), st')"
  shows "\<exists>pe r0 rs r.
           snd st' = snd st
             @ [ResourceFor_call \<lparr>Group = [], Version = [], Resource = resourceName\<rparr> (Inl pe),
                RESTMappings_call \<lparr>gk_Group = [], gk_Kind = resourceName\<rparr> r0]
             @ kind_calls [resourceName, strings_Title L resourceName, strings_ToUpper L resourceName,
                  strings_ToUpper L (string_of_byte (hd resourceName)) @ strings_ToLower L (tl resourceName)] rs
             @ [ServerPreferredResources_call r]
           \<and> miss r0 \<and> length rs = 4 \<and> list_all miss rs
           \<and> scan_result L resourceName r = Inl e"
proof -
  let ?g = "\<lparr>Group = [], Version = [], Resource = resourceName\<rparr>"
  let ?gk = "\<lparr>gk_Group = [], gk_Kind = resourceName\<rparr>"
  let ?kinds = "[resourceName, strings_Title L resourceName, strings_ToUpper L resourceName,
                  strings_ToUpper L (string_of_byte (hd resourceName)) @ strings_ToLower L (tl resourceName)]"
  obtain r1 st1 where c1: "call_ResourceFor k ?g st = (r1, st1)"
    by (cases "call_ResourceFor k ?g st")
  from assms(2) c1 obtain pe where r1: "r1 = Inl pe"
    and k1: "kindLookup L k resourceName st1 = (Returns (Inl e), st')"
    by (cases r1) (simp_all add: resourceLookup_def)
  obtain r0 st2 where c2: "call_RESTMappings k ?gk st1 = (r0, st2)"
    by (cases "call_RESTMappings k ?gk st1")
  have m0: "miss r0"
  proof (rule ccontr)
    assume "\<not> miss r0"
    from not_miss [OF this] obtain m ms where "r0 = Inr (m # ms)"
      by blast
    with k1 c2 show False
      by (simp add: kindLookup_def)
  qed
  with k1 c2 have k2: "kindVariationRetry L k resourceName st2 = (Returns (Inl e), st')"
    by (cases r0) (auto simp: kindLookup_def miss_def)
  from kindVariationRetry_trace [OF assms(1) k2] obtain rs r where
     h: "length rs = 4" "list_all miss rs" "Returns (Inl e) = Returns (scan_result L resourceName r)"
        "snd st' = snd st2 @ kind_calls ?kinds rs @ [ServerPreferredResources_call r]"
    by auto
  from call_ResourceFor_log [OF c1] r1
  have l1: "snd st1 = snd st @ [ResourceFor_call ?g (Inl pe)]"
    by simp
  from call_RESTMappings_log [OF c2]
  have l2: "snd st2 = snd st1 @ [RESTMappings_call ?gk r0]"
    by simp
  from h l1 l2 m0 have "snd st' = snd st
             @ [ResourceFor_call ?g (Inl pe), RESTMappings_call ?gk r0]
             @ kind_calls ?kinds rs @ [ServerPreferredResources_call r]
           \<and> miss r0 \<and> length rs = 4 \<and> list_all miss rs
           \<and> scan_result L resourceName r = Inl e"
    by simp
  then show ?thesis
    by blast
qed

section \<open>The order of the case variations\<close>

text \<open>
  C7, as the specification states it, fails: the second spelling is \<open>strings.Title\<close>
  of the name, which capitalises the first letter of every word, not only the first
  letter of the name. For "my-kind" the spellings are "my-kind", "My-Kind", "MY-KIND",
  "My-kind", and not "my-kind", "My-kind", "MY-KIND", "My-kind".
\<close>

theorem kindVariations_counterexample:
  "kindVariations ascii_package ''my-kind''
     = Returns [''my-kind'', ''My-Kind'', ''MY-KIND'', ''My-kind'']
   \<and> kindVariations ascii_package ''my-kind''
       \<noteq> Returns [''my-kind'', ''My-kind'', ''MY-KIND'', ''My-kind'']"
  by code_simp

text \<open>
  On an ASCII name, a package that is exact on ASCII gives the spellings that the words
  of the specification describe.
\<close>

lemma kindVariations_ascii:
  assumes "ascii_exact L" and "ascii resourceName" and "resourceName \<noteq> []"
  shows "strings_Title L resourceName = words_capitalized True resourceName"
    and "strings_ToUpper L resourceName = map uppercased resourceName"
    and "strings_ToUpper L (string_of_byte (hd resourceName)) @ strings_ToLower L (tl resourceName)
           = uppercased (hd resourceName) # map lowercased (tl resourceName)"
proof -
  from assms(1,2) show "strings_Title L resourceName = words_capitalized True resourceName"
    by (simp add: ascii_exact_def ascii_Title_words)
  from assms(1,2) show "strings_ToUpper L resourceName = map uppercased resourceName"
    by (simp add: ascii_exact_def ascii_ToUpper_uppercased)
  from assms(2,3) have hd: "byte (hd resourceName) < 128" and tl: "ascii (tl resourceName)"
    by (cases resourceName; simp add: ascii_Cons)+
  from hd have s: "string_of_byte (hd resourceName) = [hd resourceName]"
    by (rule string_of_byte_ascii)
  from hd have "ascii [hd resourceName]"
    by (simp add: ascii_def)
  with assms(1) have "strings_ToUpper L [hd resourceName] = [uppercased (hd resourceName)]"
    by (simp add: ascii_exact_def ascii_ToUpper_uppercased)
  moreover from assms(1) tl
  have "strings_ToLower L (tl resourceName) = map lowercased (tl resourceName)"
    by (simp add: ascii_exact_def ascii_ToLower_lowercased)
  ultimately show "strings_ToUpper L (string_of_byte (hd resourceName))
                     @ strings_ToLower L (tl resourceName)
           = uppercased (hd resourceName) # map lowercased (tl resourceName)"
    using s by simp
qed

text \<open>
  C7, amended. For a non-empty name the spellings are, in this order: the name,
  \<open>strings.Title\<close> of the name, \<open>strings.ToUpper\<close> of the name, and
  \<open>strings.ToUpper\<close> of the first byte converted to a string followed by
  \<open>strings.ToLower\<close> of the rest. For an ASCII name these are: the name; the name with
  the first letter of every word in upper case and the rest unchanged (a word starts at
  the beginning and after every character that is not a letter, a digit or an
  underscore, so for a name that is a single word this is the name with its first
  letter in upper case); the name in upper case; and the first letter in upper case
  followed by the rest in lower case. The retry looks the spellings up as Kinds in that
  order and stops at the first lookup that returns a mapping, whose resource it
  returns; when all four miss, it goes on to the discovery call.
\<close>

theorem kind_variation_retry_order:
  fixes k :: "('e, 'i, 'w) KubeGet"
  assumes "resourceName \<noteq> []"
    and "kindVariationRetry L k resourceName st = (out, st')"
  shows "kindVariations L resourceName =
           Returns [resourceName, strings_Title L resourceName, strings_ToUpper L resourceName,
                    strings_ToUpper L (string_of_byte (hd resourceName))
                      @ strings_ToLower L (tl resourceName)]
       \<and> (ascii_exact L \<and> ascii resourceName \<longrightarrow>
            strings_Title L resourceName = words_capitalized True resourceName
            \<and> strings_ToUpper L resourceName = map uppercased resourceName
            \<and> strings_ToUpper L (string_of_byte (hd resourceName))
                 @ strings_ToLower L (tl resourceName)
               = uppercased (hd resourceName) # map lowercased (tl resourceName)
            \<and> (list_all word_character resourceName \<longrightarrow>
                 strings_Title L resourceName = uppercased (hd resourceName) # tl resourceName))
       \<and> ((\<exists>n rs m ms. 0 < n \<and> n \<le> 4 \<and> length rs = n \<and> list_all miss (butlast rs)
              \<and> last rs = Inr (m # ms) \<and> out = Returns (Inr (mapping_Resource m))
              \<and> snd st' = snd st @ kind_calls (take n
                   [resourceName, strings_Title L resourceName, strings_ToUpper L resourceName,
                    strings_ToUpper L (string_of_byte (hd resourceName))
                      @ strings_ToLower L (tl resourceName)]) rs)
          \<or> (\<exists>rs r. length rs = 4 \<and> list_all miss rs
              \<and> out = Returns (scan_result L resourceName r)
              \<and> snd st' = snd st @ kind_calls
                   [resourceName, strings_Title L resourceName, strings_ToUpper L resourceName,
                    strings_ToUpper L (string_of_byte (hd resourceName))
                      @ strings_ToLower L (tl resourceName)] rs
                   @ [ServerPreferredResources_call r]))"
proof (intro conjI impI)
  show "kindVariations L resourceName =
           Returns [resourceName, strings_Title L resourceName, strings_ToUpper L resourceName,
                    strings_ToUpper L (string_of_byte (hd resourceName))
                      @ strings_ToLower L (tl resourceName)]"
    using assms(1) by (rule kindVariations_nonempty)
next
  assume a: "ascii_exact L \<and> ascii resourceName"
  with assms(1) show "strings_Title L resourceName = words_capitalized True resourceName"
    by (simp add: kindVariations_ascii)
next
  assume a: "ascii_exact L \<and> ascii resourceName"
  with assms(1) show "strings_ToUpper L resourceName = map uppercased resourceName"
    by (simp add: kindVariations_ascii)
next
  assume a: "ascii_exact L \<and> ascii resourceName"
  with assms(1) show "strings_ToUpper L (string_of_byte (hd resourceName))
                 @ strings_ToLower L (tl resourceName)
               = uppercased (hd resourceName) # map lowercased (tl resourceName)"
    by (simp add: kindVariations_ascii)
next
  assume a: "ascii_exact L \<and> ascii resourceName"
    and w: "list_all word_character resourceName"
  from a assms(1) have "strings_Title L resourceName = words_capitalized True resourceName"
    by (simp add: kindVariations_ascii)
  also from w assms(1)
  have "words_capitalized True resourceName = uppercased (hd resourceName) # tl resourceName"
    using words_capitalized_single_word [of "hd resourceName" "tl resourceName"] by simp
  finally show "strings_Title L resourceName = uppercased (hd resourceName) # tl resourceName" .
next
  show "(\<exists>n rs m ms. 0 < n \<and> n \<le> 4 \<and> length rs = n \<and> list_all miss (butlast rs)
              \<and> last rs = Inr (m # ms) \<and> out = Returns (Inr (mapping_Resource m))
              \<and> snd st' = snd st @ kind_calls (take n
                   [resourceName, strings_Title L resourceName, strings_ToUpper L resourceName,
                    strings_ToUpper L (string_of_byte (hd resourceName))
                      @ strings_ToLower L (tl resourceName)]) rs)
          \<or> (\<exists>rs r. length rs = 4 \<and> list_all miss rs
              \<and> out = Returns (scan_result L resourceName r)
              \<and> snd st' = snd st @ kind_calls
                   [resourceName, strings_Title L resourceName, strings_ToUpper L resourceName,
                    strings_ToUpper L (string_of_byte (hd resourceName))
                      @ strings_ToLower L (tl resourceName)] rs
                   @ [ServerPreferredResources_call r])"
    using assms by (rule kindVariationRetry_trace)
qed

theorem kind_variation_retry_order_witness:
  "''node'' \<noteq> []
   \<and> kindVariationRetry ascii_package demo_cluster ''node'' (0, []) =
       (Returns (Inr \<lparr>Group = [], Version = ''v1'', Resource = ''nodes''\<rparr>),
        (2, [RESTMappings_call \<lparr>gk_Group = [], gk_Kind = ''node''\<rparr> (Inl ''no matches for kind''),
             RESTMappings_call \<lparr>gk_Group = [], gk_Kind = ''Node''\<rparr>
               (Inr [\<lparr>mapping_Resource = \<lparr>Group = [], Version = ''v1'', Resource = ''nodes''\<rparr>,
                      mapping_Kind = \<lparr>gk_Group = [], gk_Kind = ''Node''\<rparr>\<rparr>])]))
   \<and> ascii_exact ascii_package \<and> ascii ''node'' \<and> list_all word_character ''node''
   \<and> strings_Title ascii_package ''node'' = ''Node''
   \<and> kindVariations ascii_package ''node'' = Returns [''node'', ''Node'', ''NODE'', ''Node'']
   \<and> ''my-kind_2.v1'' \<noteq> []
   \<and> kindVariationRetry ascii_package unreachable_cluster ''my-kind_2.v1'' (0, []) =
       (Returns (Inl (ErrFindResource ''my-kind_2.v1'' (Provider ''connection refused''))),
        (5, [RESTMappings_call \<lparr>gk_Group = [], gk_Kind = ''my-kind_2.v1''\<rparr>
               (Inl ''connection refused''),
             RESTMappings_call \<lparr>gk_Group = [], gk_Kind = ''My-Kind_2.V1''\<rparr>
               (Inl ''connection refused''),
             RESTMappings_call \<lparr>gk_Group = [], gk_Kind = ''MY-KIND_2.V1''\<rparr>
               (Inl ''connection refused''),
             RESTMappings_call \<lparr>gk_Group = [], gk_Kind = ''My-kind_2.v1''\<rparr>
               (Inl ''connection refused''),
             ServerPreferredResources_call (Inl ''connection refused'')]))
   \<and> ascii ''my-kind_2.v1''
   \<and> strings_Title ascii_package ''my-kind_2.v1'' = ''My-Kind_2.V1''
   \<and> strings_ToUpper ascii_package ''my-kind_2.v1'' = ''MY-KIND_2.V1''
   \<and> strings_ToUpper ascii_package (string_of_byte (hd ''my-kind_2.v1''))
         @ strings_ToLower ascii_package (tl ''my-kind_2.v1'') = ''My-kind_2.v1''"
proof -
  have h1: "''node'' \<noteq> []"
    by simp
  have h2: "kindVariationRetry ascii_package demo_cluster ''node'' (0, []) =
       (Returns (Inr \<lparr>Group = [], Version = ''v1'', Resource = ''nodes''\<rparr>),
        (2, [RESTMappings_call \<lparr>gk_Group = [], gk_Kind = ''node''\<rparr> (Inl ''no matches for kind''),
             RESTMappings_call \<lparr>gk_Group = [], gk_Kind = ''Node''\<rparr>
               (Inr [\<lparr>mapping_Resource = \<lparr>Group = [], Version = ''v1'', Resource = ''nodes''\<rparr>,
                      mapping_Kind = \<lparr>gk_Group = [], gk_Kind = ''Node''\<rparr>\<rparr>])]))"
    by code_simp
  have e: "ascii_exact ascii_package"
    by (rule ascii_package_exact)
  have a1: "ascii ''node''"
    by code_simp
  have w1: "list_all word_character ''node''"
    by code_simp
  have u1: "uppercased (hd ''node'') # tl ''node'' = ''Node''"
    by code_simp
  have v1: "[''node'', ''Node'', map uppercased ''node'',
            uppercased (hd ''node'') # map lowercased (tl ''node'')]
           = [''node'', ''Node'', ''NODE'', ''Node'']"
    by code_simp
  from kind_variation_retry_order [OF h1 h2] e a1 w1 u1
  have t1: "strings_Title ascii_package ''node'' = ''Node''"
    by simp
  from kind_variation_retry_order [OF h1 h2] e a1 t1 v1
  have k1: "kindVariations ascii_package ''node'' = Returns [''node'', ''Node'', ''NODE'', ''Node'']"
    by simp
  have g1: "''my-kind_2.v1'' \<noteq> []"
    by simp
  have g2: "kindVariationRetry ascii_package unreachable_cluster ''my-kind_2.v1'' (0, []) =
       (Returns (Inl (ErrFindResource ''my-kind_2.v1'' (Provider ''connection refused''))),
        (5, [RESTMappings_call \<lparr>gk_Group = [], gk_Kind = ''my-kind_2.v1''\<rparr>
               (Inl ''connection refused''),
             RESTMappings_call \<lparr>gk_Group = [], gk_Kind = ''My-Kind_2.V1''\<rparr>
               (Inl ''connection refused''),
             RESTMappings_call \<lparr>gk_Group = [], gk_Kind = ''MY-KIND_2.V1''\<rparr>
               (Inl ''connection refused''),
             RESTMappings_call \<lparr>gk_Group = [], gk_Kind = ''My-kind_2.v1''\<rparr>
               (Inl ''connection refused''),
             ServerPreferredResources_call (Inl ''connection refused'')]))"
    by code_simp
  have a2: "ascii ''my-kind_2.v1''"
    by code_simp
  have u2: "words_capitalized True ''my-kind_2.v1'' = ''My-Kind_2.V1''"
    by code_simp
  have v2: "map uppercased ''my-kind_2.v1'' = ''MY-KIND_2.V1''"
    by code_simp
  have x2: "uppercased (hd ''my-kind_2.v1'') # map lowercased (tl ''my-kind_2.v1'')
              = ''My-kind_2.v1''"
    by code_simp
  from kind_variation_retry_order [OF g1 g2] e a2 u2
  have t2: "strings_Title ascii_package ''my-kind_2.v1'' = ''My-Kind_2.V1''"
    by simp
  from kind_variation_retry_order [OF g1 g2] e a2 v2
  have t3: "strings_ToUpper ascii_package ''my-kind_2.v1'' = ''MY-KIND_2.V1''"
    by simp
  from kind_variation_retry_order [OF g1 g2] e a2 x2
  have t4: "strings_ToUpper ascii_package (string_of_byte (hd ''my-kind_2.v1''))
         @ strings_ToLower ascii_package (tl ''my-kind_2.v1'') = ''My-kind_2.v1''"
    by simp
  from h1 h2 e a1 w1 t1 k1 g1 g2 a2 t2 t3 t4 show ?thesis
    by blast
qed

section \<open>Errors of the resolution\<close>

text \<open>
  C3. When \<open>findGVR\<close> returns an error for a non-empty name, every strategy was run
  in turn: the log grew by the direct lookup, which failed, the Kind lookup and the four
  Kind lookups of the spellings, which all missed (by an error of the provider or an
  empty result), and the discovery call. None of those failures is in the error
  returned: it is either the not-found error with the name, when the discovery call
  succeeded, or the error of the discovery call wrapped with the name. The spellings
  are those that the case functions of the library give for the name, whatever the
  name and the functions are.
\<close>

theorem findGVR_errors:
  fixes k :: "('e, 'i, 'w) KubeGet"
  assumes "resourceName \<noteq> []"
    and "findGVR L k resourceName st = (Returns (Inl e), st')"
  shows "\<exists>pe r0 rs r.
           snd st' = snd st
             @ [ResourceFor_call \<lparr>Group = [], Version = [], Resource = resourceName\<rparr> (Inl pe),
                RESTMappings_call \<lparr>gk_Group = [], gk_Kind = resourceName\<rparr> r0]
             @ kind_calls [resourceName, strings_Title L resourceName, strings_ToUpper L resourceName,
                  strings_ToUpper L (string_of_byte (hd resourceName)) @ strings_ToLower L (tl resourceName)] rs
             @ [ServerPreferredResources_call r]
           \<and> miss r0 \<and> length rs = 4 \<and> list_all miss rs
           \<and> (case r of
                 Inl de \<Rightarrow> e = ErrFindResource resourceName (Provider de)
               | Inr apiResourceLists \<Rightarrow> e = ErrNotFound resourceName)"
proof -
  have fq: "fullyQualified resourceName = None"
  proof (cases "fullyQualified resourceName")
    case None
    then show ?thesis .
  next
    case (Some gvr)
    with assms show ?thesis
      by (simp add: findGVR_def)
  qed
  from assms(2) have "resourceLookup L k resourceName st = (Returns (Inl e), st')"
    unfolding findGVR_reaches_lookup [OF assms(1) fq] .
  from resourceLookup_trace [OF assms(1) this] obtain pe r0 rs r where
    h: "snd st' = snd st
             @ [ResourceFor_call \<lparr>Group = [], Version = [], Resource = resourceName\<rparr> (Inl pe),
                RESTMappings_call \<lparr>gk_Group = [], gk_Kind = resourceName\<rparr> r0]
             @ kind_calls [resourceName, strings_Title L resourceName, strings_ToUpper L resourceName,
                  strings_ToUpper L (string_of_byte (hd resourceName)) @ strings_ToLower L (tl resourceName)] rs
             @ [ServerPreferredResources_call r]"
       "miss r0" "length rs = 4" "list_all miss rs" "scan_result L resourceName r = Inl e"
    by blast
  from h(5) have "case r of
                 Inl de \<Rightarrow> e = ErrFindResource resourceName (Provider de)
               | Inr apiResourceLists \<Rightarrow> e = ErrNotFound resourceName"
    by (auto simp: scan_result_def split: sum.splits option.splits)
  with h(1-4) show ?thesis
    by blast
qed

theorem findGVR_errors_witness:
  "''po'' \<noteq> []
   \<and> findGVR ascii_package unreachable_cluster ''po'' (0, []) =
       (Returns (Inl (ErrFindResource ''po'' (Provider ''connection refused''))),
        (7, [ResourceFor_call \<lparr>Group = [], Version = [], Resource = ''po''\<rparr>
               (Inl ''connection refused''),
             RESTMappings_call \<lparr>gk_Group = [], gk_Kind = ''po''\<rparr> (Inl ''connection refused''),
             RESTMappings_call \<lparr>gk_Group = [], gk_Kind = ''po''\<rparr> (Inl ''connection refused''),
             RESTMappings_call \<lparr>gk_Group = [], gk_Kind = ''Po''\<rparr> (Inl ''connection refused''),
             RESTMappings_call \<lparr>gk_Group = [], gk_Kind = ''PO''\<rparr> (Inl ''connection refused''),
             RESTMappings_call \<lparr>gk_Group = [], gk_Kind = ''Po''\<rparr> (Inl ''connection refused''),
             ServerPreferredResources_call (Inl ''connection refused'')]))
   \<and> (\<exists>r :: string + APIResourceList option list.
         (case r of
            Inl de \<Rightarrow> ErrFindResource ''po'' (Provider ''connection refused'')
                        = ErrFindResource ''po'' (Provider de)
          | Inr apiResourceLists \<Rightarrow> ErrFindResource ''po'' (Provider ''connection refused'')
                        = ErrNotFound ''po''))"
proof -
  have h1: "''po'' \<noteq> []"
    by simp
  have h2: "findGVR ascii_package unreachable_cluster ''po'' (0, []) =
       (Returns (Inl (ErrFindResource ''po'' (Provider ''connection refused''))),
        (7, [ResourceFor_call \<lparr>Group = [], Version = [], Resource = ''po''\<rparr>
               (Inl ''connection refused''),
             RESTMappings_call \<lparr>gk_Group = [], gk_Kind = ''po''\<rparr> (Inl ''connection refused''),
             RESTMappings_call \<lparr>gk_Group = [], gk_Kind = ''po''\<rparr> (Inl ''connection refused''),
             RESTMappings_call \<lparr>gk_Group = [], gk_Kind = ''Po''\<rparr> (Inl ''connection refused''),
             RESTMappings_call \<lparr>gk_Group = [], gk_Kind = ''PO''\<rparr> (Inl ''connection refused''),
             RESTMappings_call \<lparr>gk_Group = [], gk_Kind = ''Po''\<rparr> (Inl ''connection refused''),
             ServerPreferredResources_call (Inl ''connection refused'')]))"
    by code_simp
  from findGVR_errors [OF h1 h2] have "\<exists>r :: string + APIResourceList option list.
         (case r of
            Inl de \<Rightarrow> ErrFindResource ''po'' (Provider ''connection refused'')
                        = ErrFindResource ''po'' (Provider de)
          | Inr apiResourceLists \<Rightarrow> ErrFindResource ''po'' (Provider ''connection refused'')
                        = ErrNotFound ''po'')"
    by blast
  with h1 h2 show ?thesis
    by blast
qed

section \<open>The direct lookup wins\<close>

text \<open>
  C5. When the name is not empty and not fully qualified, and the direct lookup of the
  name as a resource succeeds, \<open>findGVR\<close> returns its result unchanged, and the log
  grows by that one call only: no Kind lookup and no discovery call is made, whatever
  they would have answered.
\<close>

theorem findGVR_direct_lookup_wins:
  assumes "resourceName \<noteq> []"
    and "fullyQualified resourceName = None"
    and "restMapper_ResourceFor k \<lparr>Group = [], Version = [], Resource = resourceName\<rparr> (fst st)
           = (Inr gvr, w')"
  shows "findGVR L k resourceName st =
           (Returns (Inr gvr),
            (w', snd st @ [ResourceFor_call \<lparr>Group = [], Version = [], Resource = resourceName\<rparr>
                             (Inr gvr)]))"
  using assms by (simp add: findGVR_def resourceLookup_def call_ResourceFor_def)

theorem findGVR_direct_lookup_wins_witness:
  "''pods'' \<noteq> [] \<and> fullyQualified ''pods'' = None
   \<and> restMapper_ResourceFor demo_cluster \<lparr>Group = [], Version = [], Resource = ''pods''\<rparr>
        (fst (0, [])) = (Inr \<lparr>Group = [], Version = ''v1'', Resource = ''pods''\<rparr>, Suc 0)
   \<and> findGVR ascii_package demo_cluster ''pods'' (0, []) =
       (Returns (Inr \<lparr>Group = [], Version = ''v1'', Resource = ''pods''\<rparr>),
        (Suc 0, [ResourceFor_call \<lparr>Group = [], Version = [], Resource = ''pods''\<rparr>
                   (Inr \<lparr>Group = [], Version = ''v1'', Resource = ''pods''\<rparr>)]))"
proof -
  have h1: "''pods'' \<noteq> []"
    by simp
  have h2: "fullyQualified ''pods'' = None"
    by (simp add: fullyQualified_def)
  have h3: "restMapper_ResourceFor demo_cluster \<lparr>Group = [], Version = [], Resource = ''pods''\<rparr>
        (fst (0, [])) = (Inr \<lparr>Group = [], Version = ''v1'', Resource = ''pods''\<rparr>, Suc 0)"
    by (simp add: demo_cluster_def)
  from findGVR_direct_lookup_wins [OF h1 h2 h3] h1 h2 h3 show ?thesis
    by simp
qed

section \<open>The case variations do not fault\<close>

lemma kindVariationRetry_returns:
  fixes k :: "('e, 'i, 'w) KubeGet"
  assumes "resourceName \<noteq> []"
  shows "fst (kindVariationRetry L k resourceName st) \<noteq> Panics"
proof -
  obtain out st' where r: "kindVariationRetry L k resourceName st = (out, st')"
    by (cases "kindVariationRetry L k resourceName st")
  from kindVariationRetry_trace [OF assms r] have "out \<noteq> Panics"
    by auto
  with r show ?thesis
    by simp
qed

lemma kindLookup_returns:
  fixes k :: "('e, 'i, 'w) KubeGet"
  assumes "resourceName \<noteq> []"
  shows "fst (kindLookup L k resourceName st) \<noteq> Panics"
  using kindVariationRetry_returns [OF assms, of L k]
  by (simp add: kindLookup_def split: prod.splits sum.splits list.splits)

lemma resourceLookup_returns:
  fixes k :: "('e, 'i, 'w) KubeGet"
  assumes "resourceName \<noteq> []"
  shows "fst (resourceLookup L k resourceName st) \<noteq> Panics"
  using kindLookup_returns [OF assms, of L k]
  by (simp add: resourceLookup_def split: prod.splits sum.splits)

lemma findGVR_returns:
  fixes k :: "('e, 'i, 'w) KubeGet"
  shows "fst (findGVR L k resourceName st) \<noteq> Panics"
proof (cases "resourceName = []")
  case True
  then show ?thesis
    by (simp add: findGVR_def)
next
  case False
  from resourceLookup_returns [OF False, of L k st] False show ?thesis
    by (simp add: findGVR_def split: option.splits)
qed

text \<open>
  C8. \<open>findGVR\<close> never panics, for any name, the empty one included (the guard at its
  entry returns before the first byte is indexed); and for a name of one character the
  index of the first byte and the slice of the rest are in range, the rest being the
  empty string.
\<close>

theorem case_variations_never_fault:
  fixes k :: "('e, 'i, 'w) KubeGet"
  shows "fst (findGVR L k resourceName st) \<noteq> Panics
         \<and> (length resourceName = 1 \<longrightarrow>
              string_index0 resourceName = Returns (hd resourceName)
              \<and> string_slice1 resourceName = Returns []
              \<and> kindVariations L resourceName \<noteq> Panics)"
proof
  show "fst (findGVR L k resourceName st) \<noteq> Panics"
    by (rule findGVR_returns)
next
  show "length resourceName = 1 \<longrightarrow>
              string_index0 resourceName = Returns (hd resourceName)
              \<and> string_slice1 resourceName = Returns []
              \<and> kindVariations L resourceName \<noteq> Panics"
    by (cases resourceName)
       (simp_all add: string_index0_def string_slice1_def kindVariations_def)
qed

theorem case_variations_never_fault_witness:
  "length ''a'' = 1
   \<and> fst (findGVR ascii_package unreachable_cluster ''a'' (0, [])) \<noteq> Panics
   \<and> string_index0 ''a'' = Returns CHR ''a''
   \<and> string_slice1 ''a'' = Returns []
   \<and> kindVariations ascii_package ''a'' = Returns [''a'', ''A'', ''A'', ''A'']"
proof -
  have h: "length ''a'' = 1"
    by simp
  have v: "kindVariations ascii_package ''a'' = Returns [''a'', ''A'', ''A'', ''A'']"
    by code_simp
  from case_variations_never_fault [of ascii_package unreachable_cluster "''a''" "(0, [])"] h v
  show ?thesis
    by simp
qed

section \<open>What Get lists and returns\<close>

text \<open>
  C9. After a successful resolution \<open>Get\<close> makes exactly one more call, the listing
  of the resolved descriptor: without a namespace when the namespace string is empty,
  and under that namespace otherwise. Nothing else is consulted, so a cluster-scoped
  resource is listed under a namespace all the same.
\<close>

theorem Get_list_scope:
  assumes "findGVR L k resourceName st = (Returns (Inr gvr), st1)"
    and "dynamicClient_List k gvr (if namespace = [] then None else Some namespace) (fst st1)
           = (r, w2)"
  shows "Get L k resourceName namespace st =
           (Returns (case r of
                       Inl err \<Rightarrow> (gvr, None, Some (ErrList (Provider err)))
                     | Inr list \<Rightarrow> (gvr, list, None)),
            (w2, snd st1 @ [List_call gvr (if namespace = [] then None else Some namespace) r]))"
  using assms by (cases r; cases "namespace = []") (simp_all add: Get_def call_List_def)

theorem Get_list_scope_witness:
  "findGVR ascii_package demo_cluster ''nodes.v1.'' (0, []) =
     (Returns (Inr \<lparr>Group = [], Version = ''v1'', Resource = ''nodes''\<rparr>), (0, []))
   \<and> dynamicClient_List demo_cluster \<lparr>Group = [], Version = ''v1'', Resource = ''nodes''\<rparr>
        (if ''default'' = [] then None else Some ''default'') (fst (0, []))
       = (Inl ''the server could not find the requested resource'', Suc 0)
   \<and> Get ascii_package demo_cluster ''nodes.v1.'' ''default'' (0, []) =
       (Returns (\<lparr>Group = [], Version = ''v1'', Resource = ''nodes''\<rparr>, None,
                 Some (ErrList (Provider ''the server could not find the requested resource''))),
        (Suc 0, [List_call \<lparr>Group = [], Version = ''v1'', Resource = ''nodes''\<rparr>
                   (Some ''default'')
                   (Inl ''the server could not find the requested resource'')]))"
proof -
  have h1: "findGVR ascii_package demo_cluster ''nodes.v1.'' (0, []) =
     (Returns (Inr \<lparr>Group = [], Version = ''v1'', Resource = ''nodes''\<rparr>), (0, []))"
    by (simp add: findGVR_def fullyQualified_def)
  have h2: "dynamicClient_List demo_cluster \<lparr>Group = [], Version = ''v1'', Resource = ''nodes''\<rparr>
        (if ''default'' = [] then None else Some ''default'') (fst (0, []))
       = (Inl ''the server could not find the requested resource'', Suc 0)"
    by (simp add: demo_cluster_def)
  from Get_list_scope [OF h1 h2] h1 h2 show ?thesis
    by simp
qed

text \<open>
  C10. When the resolution fails, \<open>Get\<close> returns the zero descriptor, a nil collection
  and the resolution error wrapped with the name; the state is the one the resolution
  left.
\<close>

theorem Get_resolution_failure:
  assumes "findGVR L k resourceName st = (Returns (Inl e), st1)"
  shows "Get L k resourceName namespace st =
           (Returns (\<lparr>Group = [], Version = [], Resource = []\<rparr>, None,
                     Some (ErrFindResource resourceName e)), st1)"
  using assms by (simp add: Get_def)

theorem Get_resolution_failure_witness:
  "findGVR ascii_package unreachable_cluster [] (0, []) = (Returns (Inl ErrEmptyName), (0, []))
   \<and> Get ascii_package unreachable_cluster [] ''default'' (0, []) =
       (Returns (\<lparr>Group = [], Version = [], Resource = []\<rparr>, None,
                 Some (ErrFindResource [] ErrEmptyName)), (0, []))"
proof -
  have h: "findGVR ascii_package unreachable_cluster [] (0, []) = (Returns (Inl ErrEmptyName), (0, []))"
    by (simp add: findGVR_def)
  from Get_resolution_failure [OF h] h show ?thesis
    by simp
qed

text \<open>
  C4, as the specification states it, fails in its last part: the error of a failed
  listing is wrapped with the fixed text "failed to list resources" only. On a cluster
  that cannot be reached, \<open>Get\<close> of "pods.v1." returns the descriptor and an error that
  carries no identifier (and no descriptor).
\<close>

theorem Get_list_error_counterexample:
  "Get ascii_package unreachable_cluster ''pods.v1.'' ''default'' (0, []) =
     (Returns (\<lparr>Group = [], Version = ''v1'', Resource = ''pods''\<rparr>, None,
               Some (ErrList (Provider ''connection refused''))),
      (1, [List_call \<lparr>Group = [], Version = ''v1'', Resource = ''pods''\<rparr> (Some ''default'')
             (Inl ''connection refused'')]))
   \<and> error_identifiers (ErrList (Provider ''connection refused'')) = []"
  by code_simp

text \<open>
  C4, amended. Every error that \<open>Get\<close> returns comes with a nil collection and is one
  of two. Either the resolution failed: the descriptor is zero, the error is the
  resolution error wrapped with the name, and the state is the one the resolution left,
  so no listing was attempted. Or the resolution succeeded and the listing failed: the
  resolved descriptor is returned alongside the listing error, which is wrapped with a
  fixed text and carries neither the name nor the descriptor.
\<close>

theorem Get_errors:
  assumes "Get L k resourceName namespace st = (Returns (d, items, Some err), st2)"
  shows "items = None
       \<and> ((\<exists>e. findGVR L k resourceName st = (Returns (Inl e), st2)
                \<and> d = \<lparr>Group = [], Version = [], Resource = []\<rparr>
                \<and> err = ErrFindResource resourceName e
                \<and> resourceName \<in> set (error_identifiers err))
          \<or> (\<exists>st1 pe. findGVR L k resourceName st = (Returns (Inr d), st1)
                \<and> err = ErrList (Provider pe)
                \<and> error_identifiers err = []
                \<and> snd st2 = snd st1 @ [List_call d (if namespace = [] then None
                                                      else Some namespace) (Inl pe)]))"
proof -
  obtain out st1 where f: "findGVR L k resourceName st = (out, st1)"
    by (cases "findGVR L k resourceName st")
  show ?thesis
  proof (cases out)
    case Panics
    with assms f show ?thesis
      by (simp add: Get_def)
  next
    case (Returns res)
    show ?thesis
    proof (cases res)
      case (Inl e)
      with Returns assms f show ?thesis
        by (auto simp: Get_def)
    next
      case (Inr gvr)
      obtain r st3 where l: "call_List k gvr (if namespace \<noteq> [] then Some namespace else None) st1
                               = (r, st3)"
        by (cases "call_List k gvr (if namespace \<noteq> [] then Some namespace else None) st1")
      from call_List_log [OF l]
      have log: "snd st3 = snd st1 @ [List_call gvr (if namespace \<noteq> [] then Some namespace
                                                     else None) r]"
        by simp
      from Inr Returns assms f l obtain pe where
        r: "r = Inl pe" "d = gvr" "items = None" "err = ErrList (Provider pe)" "st2 = st3"
        by (cases r) (simp_all add: Get_def)
      have "(if namespace \<noteq> [] then Some namespace else None)
              = (if namespace = [] then None else Some namespace)"
        by simp
      with log r have "snd st2 = snd st1 @ [List_call d (if namespace = [] then None
                                                      else Some namespace) (Inl pe)]"
        by simp
      with r Inr Returns f show ?thesis
        by simp
    qed
  qed
qed

theorem Get_errors_witness:
  "Get ascii_package unreachable_cluster ''pods.v1.'' ''default'' (0, []) =
     (Returns (\<lparr>Group = [], Version = ''v1'', Resource = ''pods''\<rparr>, None,
               Some (ErrList (Provider ''connection refused''))),
      (1, [List_call \<lparr>Group = [], Version = ''v1'', Resource = ''pods''\<rparr> (Some ''default'')
             (Inl ''connection refused'')]))
   \<and> findGVR ascii_package unreachable_cluster ''pods.v1.'' (0, []) =
       (Returns (Inr \<lparr>Group = [], Version = ''v1'', Resource = ''pods''\<rparr>), (0, []))"
proof -
  have h: "Get ascii_package unreachable_cluster ''pods.v1.'' ''default'' (0, []) =
     (Returns (\<lparr>Group = [], Version = ''v1'', Resource = ''pods''\<rparr>, None,
               Some (ErrList (Provider ''connection refused''))),
      (1, [List_call \<lparr>Group = [], Version = ''v1'', Resource = ''pods''\<rparr> (Some ''default'')
             (Inl ''connection refused'')]))"
    by code_simp
  from Get_errors [OF h]
  have "\<exists>st1. findGVR ascii_package unreachable_cluster ''pods.v1.'' (0, []) =
          (Returns (Inr \<lparr>Group = [], Version = ''v1'', Resource = ''pods''\<rparr>), st1)"
    by auto
  moreover have "snd (findGVR ascii_package unreachable_cluster ''pods.v1.'' (0, [])) = (0, [])"
    by code_simp
  ultimately have "findGVR ascii_package unreachable_cluster ''pods.v1.'' (0, []) =
       (Returns (Inr \<lparr>Group = [], Version = ''v1'', Resource = ''pods''\<rparr>), (0, []))"
    by auto
  with h show ?thesis
    by blast
qed

section \<open>The scan of the discovery snapshot\<close>

lemma shortNamesLoop_iff: "shortNamesLoop resourceName shortNames \<longleftrightarrow> resourceName \<in> set shortNames"
  by (induction shortNames) auto

lemma resourcesLoop_find:
  "resourcesLoop L gv resourceName entries =
     map_option (\<lambda>entry. WithResource gv (Name entry)) (find (entry_matches L resourceName) entries)"
  by (induction entries)
     (auto simp: entry_matches_def shortNamesLoop_iff)

lemma first_match_append:
  "first_match L resourceName (xs @ ys) =
     (case first_match L resourceName xs of
        None \<Rightarrow> first_match L resourceName ys
      | Some p \<Rightarrow> Some p)"
  by (induction xs) (simp_all add: first_match_def)

lemma first_match_Pair:
  "first_match L resourceName (map (Pair gv) entries) =
     map_option (Pair gv) (find (entry_matches L resourceName) entries)"
  by (induction entries) (simp_all add: first_match_def)

lemma parsed_entries_Nil: "parsed_entries [] = []"
  by (simp add: parsed_entries_def snapshot_entries_def)

lemma parsed_entries_None: "parsed_entries (None # rest) = parsed_entries rest"
  by (simp add: parsed_entries_def snapshot_entries_def)

lemma parsed_entries_Some:
  "parsed_entries (Some l # rest) =
     (case ParseGroupVersion (GroupVersion l) of
        None \<Rightarrow> []
      | Some gv \<Rightarrow> map (Pair gv) (APIResources l)) @ parsed_entries rest"
proof -
  have "concat (map (\<lambda>p. case ParseGroupVersion (fst p) of None \<Rightarrow> [] | Some gv \<Rightarrow> [(gv, snd p)])
                    (map (Pair (GroupVersion l)) entries)) =
        (case ParseGroupVersion (GroupVersion l) of
           None \<Rightarrow> []
         | Some gv \<Rightarrow> map (Pair gv) entries)" for entries
    by (induction entries) (simp_all split: option.splits)
  then show ?thesis
    by (simp add: parsed_entries_def snapshot_entries_def)
qed

lemma listsLoop_first_match:
  "listsLoop L resourceName apiResourceLists =
     map_option entry_descriptor (first_match L resourceName (parsed_entries apiResourceLists))"
proof (induction apiResourceLists)
  case Nil
  then show ?case
    by (simp add: parsed_entries_Nil first_match_def)
next
  case (Cons l rest)
  show ?case
  proof (cases l)
    case None
    with Cons show ?thesis
      by (simp add: parsed_entries_None)
  next
    case (Some apiResourceList)
    show ?thesis
    proof (cases "ParseGroupVersion (GroupVersion apiResourceList)")
      case None
      with Some Cons show ?thesis
        by (simp add: parsed_entries_Some)
    next
      case (Some gv)
      with \<open>l = Some apiResourceList\<close> Cons show ?thesis
        by (simp add: parsed_entries_Some first_match_append first_match_Pair
                      resourcesLoop_find entry_descriptor_def option.map_comp comp_def
                 split: option.splits)
    qed
  qed
qed

text \<open>
  C6, as the specification states it, fails: a list whose group-version string does
  not parse is passed over with all its entries. In \<open>skipped_snapshot\<close> the first
  entry that matches "wd" in iteration order is "widgets", and the scan returns the
  descriptor of "wadgets" from the second list.
\<close>

theorem alias_scan_counterexample:
  "first_match ascii_package ''wd'' (snapshot_entries skipped_snapshot) =
     Some (''example.io/v1/beta'',
           \<lparr>Name = ''widgets'', Kind = ''Widget'', ShortNames = [''wd''], Namespaced = True\<rparr>)
   \<and> listsLoop ascii_package ''wd'' skipped_snapshot =
       Some \<lparr>Group = ''example.io'', Version = ''v2'', Resource = ''wadgets''\<rparr>"
  by code_simp

text \<open>
  For ASCII strings the comparison of \<open>strings.EqualFold\<close> is equality after
  lower-casing.
\<close>

lemma entry_matches_ascii:
  assumes "ascii_exact L" and "ascii resourceName" and "ascii (Kind entry)"
  shows "entry_matches L resourceName entry =
           (Name entry = resourceName
            \<or> map lowercased (Kind entry) = map lowercased resourceName
            \<or> resourceName \<in> set (ShortNames entry))"
proof -
  from assms have "strings_EqualFold L (Kind entry) resourceName
                     = ascii_EqualFold (Kind entry) resourceName"
    by (simp add: ascii_exact_def)
  then show ?thesis
    by (simp add: entry_matches_def ascii_EqualFold_iff)
qed

text \<open>
  C6, amended. When the discovery call succeeds, the scan matches the name against the
  plural resource name (exactly), the Kind (up to case, as \<open>strings.EqualFold\<close>
  compares, which for an ASCII name and an ASCII Kind is equality after lower-casing)
  and the short names (exactly) of the entries, and returns the descriptor of the first
  matching entry, in the snapshot's own iteration order, among the entries of the lists
  whose group-version string parses; nil lists and lists whose group-version does not
  parse are passed over. With no such entry the not-found error is returned. In
  particular "dspa", a short name only, resolves to the descriptor of the resource that
  registers it.
\<close>

theorem alias_scan_first_match:
  assumes "discoveryClient_ServerPreferredResources k (fst st) = (Inr apiResourceLists, w')"
  shows "aliasScan L k resourceName st =
           (Returns (case first_match L resourceName (parsed_entries apiResourceLists) of
                       Some p \<Rightarrow> Inr (entry_descriptor p)
                     | None \<Rightarrow> Inl (ErrNotFound resourceName)),
            (w', snd st @ [ServerPreferredResources_call (Inr apiResourceLists)]))
       \<and> (ascii_exact L \<and> ascii resourceName \<and> ascii (Kind entry) \<longrightarrow>
            entry_matches L resourceName entry =
              (Name entry = resourceName
               \<or> map lowercased (Kind entry) = map lowercased resourceName
               \<or> resourceName \<in> set (ShortNames entry)))"
proof (intro conjI impI)
  show "aliasScan L k resourceName st =
           (Returns (case first_match L resourceName (parsed_entries apiResourceLists) of
                       Some p \<Rightarrow> Inr (entry_descriptor p)
                     | None \<Rightarrow> Inl (ErrNotFound resourceName)),
            (w', snd st @ [ServerPreferredResources_call (Inr apiResourceLists)]))"
    using assms
    by (simp add: aliasScan_def call_ServerPreferredResources_def listsLoop_first_match
             split: option.splits)
next
  assume "ascii_exact L \<and> ascii resourceName \<and> ascii (Kind entry)"
  then show "entry_matches L resourceName entry =
              (Name entry = resourceName
               \<or> map lowercased (Kind entry) = map lowercased resourceName
               \<or> resourceName \<in> set (ShortNames entry))"
    by (simp add: entry_matches_ascii)
qed

theorem alias_scan_first_match_witness:
  "discoveryClient_ServerPreferredResources demo_cluster (fst (0, [])) = (Inr demo_snapshot, Suc 0)
   \<and> first_match ascii_package ''dspa'' (parsed_entries demo_snapshot) =
       Some (\<lparr>gv_Group = ''datasciencepipelinesapplications.opendatahub.io'', gv_Version = ''v1''\<rparr>,
             \<lparr>Name = ''datasciencepipelinesapplications'',
              Kind = ''DataSciencePipelinesApplication'',
              ShortNames = [''dspa''], Namespaced = True\<rparr>)
   \<and> aliasScan ascii_package demo_cluster ''dspa'' (0, []) =
       (Returns (Inr \<lparr>Group = ''datasciencepipelinesapplications.opendatahub.io'',
                      Version = ''v1'',
                      Resource = ''datasciencepipelinesapplications''\<rparr>),
        (Suc 0, [ServerPreferredResources_call (Inr demo_snapshot)]))
   \<and> ascii_exact ascii_package \<and> ascii ''pOD'' \<and> ascii ''Pod''
   \<and> entry_matches ascii_package ''pOD''
        \<lparr>Name = ''pods'', Kind = ''Pod'', ShortNames = [''po''], Namespaced = True\<rparr>"
proof -
  have h: "discoveryClient_ServerPreferredResources demo_cluster (fst (0, []))
             = (Inr demo_snapshot, Suc 0)"
    by (simp add: demo_cluster_def)
  have m: "first_match ascii_package ''dspa'' (parsed_entries demo_snapshot) =
       Some (\<lparr>gv_Group = ''datasciencepipelinesapplications.opendatahub.io'', gv_Version = ''v1''\<rparr>,
             \<lparr>Name = ''datasciencepipelinesapplications'',
              Kind = ''DataSciencePipelinesApplication'',
              ShortNames = [''dspa''], Namespaced = True\<rparr>)"
    by code_simp
  have e: "ascii_exact ascii_package"
    by (rule ascii_package_exact)
  have a1: "ascii ''pOD''"
    by code_simp
  have a2: "ascii ''Pod''"
    by code_simp
  have l: "map lowercased ''Pod'' = map lowercased ''pOD''"
    by code_simp
  from alias_scan_first_match [OF h, of ascii_package "''dspa''"] h m
  have s: "aliasScan ascii_package demo_cluster ''dspa'' (0, []) =
       (Returns (Inr \<lparr>Group = ''datasciencepipelinesapplications.opendatahub.io'',
                      Version = ''v1'',
                      Resource = ''datasciencepipelinesapplications''\<rparr>),
        (Suc 0, [ServerPreferredResources_call (Inr demo_snapshot)]))"
    by (simp add: entry_descriptor_def WithResource_def)
  from alias_scan_first_match [OF h, of ascii_package "''pOD''"
         "\<lparr>Name = ''pods'', Kind = ''Pod'', ShortNames = [''po''], Namespaced = True\<rparr>"]
       e a1 a2 l
  have p: "entry_matches ascii_package ''pOD''
        \<lparr>Name = ''pods'', Kind = ''Pod'', ShortNames = [''po''], Namespaced = True\<rparr>"
    by simp
  from h m s e a1 a2 p show ?thesis
    by blast
qed

end
